theory Spec2Isabelle
  imports Main
begin

section \<open>Strings\<close>

text \<open>
  Python \<open>str\<close> values are modelled as \<^typ>\<open>string\<close>: sequences of code points
  below 256. The constants below are those of Python's \<open>string\<close> module.
\<close>

definition ascii_lowercase :: string where
  "ascii_lowercase = ''abcdefghijklmnopqrstuvwxyz''"

definition ascii_uppercase :: string where
  "ascii_uppercase = ''ABCDEFGHIJKLMNOPQRSTUVWXYZ''"

definition ascii_letters :: string where
  "ascii_letters = ascii_lowercase @ ascii_uppercase"

definition digits :: string where
  "digits = ''0123456789''"

text \<open>
  \<open>str.lower\<close>: below 256 the code points that it changes are the upper-case letters
  \<open>A\<close> to \<open>Z\<close> and U+00C0 to U+00DE without the multiplication sign U+00D7; the
  lower-case form of each is 32 code points above it.
\<close>

definition upper_letter :: "char \<Rightarrow> bool" where
  "upper_letter c =
     (let n = (of_char c :: nat)
      in (65 \<le> n \<and> n \<le> 90) \<or> (192 \<le> n \<and> n \<le> 222 \<and> n \<noteq> 215))"

definition lower_char :: "char \<Rightarrow> char" where
  "lower_char c = (if upper_letter c then char_of ((of_char c :: nat) + 32) else c)"

definition lower :: "string \<Rightarrow> string" where
  "lower s = map lower_char s"

text \<open>\<open>str.isspace\<close> on one character, for the code points below 256.\<close>

definition isspace :: "char \<Rightarrow> bool" where
  "isspace c =
     (let n = (of_char c :: nat)
      in (9 \<le> n \<and> n \<le> 13) \<or> (28 \<le> n \<and> n \<le> 32) \<or> n = 133 \<or> n = 160)"

definition strip :: "string \<Rightarrow> string" where
  "strip s = rev (dropWhile isspace (rev (dropWhile isspace s)))"

text \<open>\<open>s.rstrip(c)\<close> for a single character \<open>c\<close>.\<close>

definition rstrip :: "char \<Rightarrow> string \<Rightarrow> string" where
  "rstrip c s = rev (dropWhile (\<lambda>x. x = c) (rev s))"

text \<open>\<open>s.split(c)[0]\<close>: the part of \<open>s\<close> before the first \<open>c\<close>.\<close>

definition split_first :: "char \<Rightarrow> string \<Rightarrow> string" where
  "split_first c s = takeWhile (\<lambda>x. x \<noteq> c) s"

section \<open>Exceptions, settings, requests\<close>

datatype exn =
    ValueError
  | OverflowError
  | DoesNotExist
  | MultipleObjectsReturned
  | IntegrityError
  | DisallowedRedirect
  | ValidationError string
  | OtherException

text \<open>
  The Django settings the modelled code reads. \<open>getattr(settings, name, default)\<close> is
  a field of type option: \<open>None\<close> when the setting is not defined. \<open>TIME_ZONE\<close> is
  modelled as a fixed offset from UTC in seconds.
\<close>

record settings =
  TINYURL_RESERVED_PATHS :: "string list option"
  REDIRECT_URL :: string
  IP_API :: "string option"
  TIME_ZONE :: int

text \<open>\<open>request.GET\<close> (also \<open>request.query_params\<close>) and \<open>request.META\<close>.\<close>

record request =
  GET :: "string \<rightharpoonup> string"
  META :: "string \<rightharpoonup> string"

definition get_client_ip :: "request \<Rightarrow> string option" where
  "get_client_ip req =
     (case META req ''HTTP_X_FORWARDED_FOR'' of
        Some x_forwarded_for \<Rightarrow>
          (if x_forwarded_for \<noteq> [] then Some (strip (split_first CHR '','' x_forwarded_for))
           else META req ''REMOTE_ADDR'')
      | None \<Rightarrow> META req ''REMOTE_ADDR'')"

section \<open>Device classifier\<close>

text \<open>
  \<open>parse_user_agent\<close> belongs to the \<open>user_agents\<close> package. It is a parameter
  of the model: for a string it either raises or gives the three flags the code reads.
\<close>

record user_agent =
  is_mobile :: bool
  is_tablet :: bool
  is_pc :: bool

definition get_device_type :: "(string \<Rightarrow> exn + user_agent) \<Rightarrow> string \<Rightarrow> string" where
  "get_device_type parse_user_agent user_agent_string =
     (if user_agent_string = [] then ''unknown''
      else
        (case parse_user_agent user_agent_string of
           Inl e \<Rightarrow> ''unknown''
         | Inr ua \<Rightarrow>
             (if is_mobile ua then ''mobile''
              else if is_tablet ua then ''tablet''
              else if is_pc ua then ''desktop''
              else ''unknown'')))"

section \<open>Geolocation resolver\<close>

text \<open>
  The outcome of \<open>requests.get\<close>: the call raises (timeout, connection error), or
  gives a response with a status code and a body. \<open>response.json()\<close> raises on a
  body that is not JSON, gives a value that is not a dict, or gives a dict; the dict
  maps a key to a string or to null (\<open>None\<close>).
\<close>

datatype json_body =
    JsonRaises
  | JsonNotDict
  | JsonDict "string \<rightharpoonup> string option"

datatype http_result =
    RequestRaised
  | HttpResponse nat json_body

record location =
  city :: "string option"
  country :: "string option"

text \<open>\<open>d.get(k)\<close> on a JSON dict: \<open>None\<close> for a missing key and for null.\<close>

definition dict_get :: "(string \<rightharpoonup> string option) \<Rightarrow> string \<Rightarrow> string option" where
  "dict_get d k = (case d k of None \<Rightarrow> None | Some v \<Rightarrow> v)"

definition no_location :: location where
  "no_location = \<lparr>city = None, country = None\<rparr>"

definition geo_url :: "settings \<Rightarrow> string \<Rightarrow> string" where
  "geo_url st ip =
     (let api_url = (case IP_API st of None \<Rightarrow> ''http://ip-api.com/json/'' | Some u \<Rightarrow> u)
      in rstrip CHR ''/'' api_url @ ''/'' @ ip)"

text \<open>
  The result is the location and the list of URLs requested over the network, in
  order: the empty list when no call is made.
\<close>

definition get_location_from_ip ::
  "settings \<Rightarrow> (string \<Rightarrow> http_result) \<Rightarrow> string option \<Rightarrow> location \<times> string list" where
  "get_location_from_ip st requests_get ip_opt =
     (case ip_opt of
        None \<Rightarrow> (no_location, [])
      | Some ip \<Rightarrow>
          (if ip = [] \<or> ip \<in> set [''127.0.0.1'', ''localhost'', ''::1'']
           then (no_location, [])
           else
             (case requests_get (geo_url st ip) of
                RequestRaised \<Rightarrow> (no_location, [geo_url st ip])
              | HttpResponse status_code body \<Rightarrow>
                  (if status_code = 200 then
                     (case body of
                        JsonRaises \<Rightarrow> (no_location, [geo_url st ip])
                      | JsonNotDict \<Rightarrow> (no_location, [geo_url st ip])
                      | JsonDict data \<Rightarrow>
                          (if dict_get data ''status'' = Some ''success''
                           then (\<lparr>city = dict_get data ''city'',
                                   country = dict_get data ''country''\<rparr>,
                                 [geo_url st ip])
                           else (no_location, [geo_url st ip])))
                   else (no_location, [geo_url st ip])))))"

section \<open>The store\<close>

text \<open>
  The tables \<open>Url\<close>, \<open>UrlStat\<close>, \<open>Link\<close> and \<open>LinkStat\<close> as lists of rows, with
  the columns the modelled views read or write. \<open>UrlStat\<close> and \<open>LinkStat\<close> have the
  same columns; their foreign key (\<open>url\<close>, \<open>link\<close>) is the field \<open>parent\<close>.
  A UUID is a natural number; a timestamp is a number of seconds since the epoch, in UTC.
\<close>

type_synonym uuid = nat

record url =
  url_id :: uuid
  short_code :: string
  long_url :: string
  url_is_active :: bool

record link =
  link_id :: uuid
  link_name :: string
  link_url :: string
  link_is_active :: bool

record stat =
  stat_id :: uuid
  parent :: uuid
  created_at :: int
  via_qrcode :: bool
  device_type :: string
  stat_city :: "string option"
  stat_country :: "string option"
  ip_address :: "string option"
  user_agent_string :: string

text \<open>
  The \<open>link_id\<close> that \<open>link_redirect\<close> is called with: a UUID, or a value that is
  not one (the lookup then raises a validation error).
\<close>

datatype link_key =
    Uuid uuid
  | Invalid string

text \<open>The calls of a view to the store are logged, in order.\<close>

datatype db_op =
    UrlGet string
  | LinkGet link_key
  | UrlStatCreate uuid
  | LinkStatCreate uuid

record world =
  urls :: "url list"
  url_stats :: "stat list"
  links :: "link list"
  link_stats :: "stat list"
  db_log :: "db_op list"
  http_log :: "string list"

text \<open>
  The constructor \<open>HttpResponseRedirect(url)\<close> of the framework checks the URL: it
  accepts it, or it raises \<open>DisallowedRedirect\<close> (a scheme other than \<open>http\<close>,
  \<open>https\<close>, \<open>ftp\<close>), or the parsing of the URL raises \<open>ValueError\<close>. The
  check is a parameter of the model.
\<close>

datatype redirect_check =
    RedirectAccepted
  | RedirectDisallowed
  | RedirectInvalid

text \<open>What a request handler gets from its environment.\<close>

record env =
  parse_user_agent :: "string \<Rightarrow> exn + user_agent"
  requests_get :: "string \<Rightarrow> http_result"
  response_redirect :: "string \<Rightarrow> redirect_check"
  now :: int
  uuid4 :: uuid

text \<open>\<open>Model.objects.get(...)\<close>: exactly one matching row, or an exception.\<close>

definition objects_get :: "('a \<Rightarrow> bool) \<Rightarrow> 'a list \<Rightarrow> exn + 'a" where
  "objects_get P rows =
     (case filter P rows of
        [] \<Rightarrow> Inl DoesNotExist
      | [r] \<Rightarrow> Inr r
      | _ \<Rightarrow> Inl MultipleObjectsReturned)"

section \<open>Redirect resolver and click recorder\<close>

datatype response =
    HttpResponseRedirect string
  | Render404 string

definition default_reserved_paths :: "string list" where
  "default_reserved_paths = [''admin'', ''api'', ''app'', ''static'', ''media'']"

definition reserved_paths :: "settings \<Rightarrow> string list" where
  "reserved_paths st =
     (case TINYURL_RESERVED_PATHS st of None \<Rightarrow> default_reserved_paths | Some ps \<Rightarrow> ps)"

definition is_reserved :: "settings \<Rightarrow> string \<Rightarrow> bool" where
  "is_reserved st code = (lower code \<in> set (map lower (reserved_paths st)))"

text \<open>
  The statistics block of both redirect views (the same statements in each): the
  new row, and the URLs the geolocation lookup requested.
\<close>

definition track :: "settings \<Rightarrow> env \<Rightarrow> request \<Rightarrow> uuid \<Rightarrow> stat \<times> string list" where
  "track st ev req target =
     (let qr = (lower (case GET req ''qrcode'' of None \<Rightarrow> [] | Some v \<Rightarrow> v) = ''true'');
          ua = (case META req ''HTTP_USER_AGENT'' of None \<Rightarrow> [] | Some v \<Rightarrow> v);
          ip = get_client_ip req;
          dev = get_device_type (parse_user_agent ev) ua;
          (loc, calls) = get_location_from_ip st (requests_get ev) ip
      in (\<lparr>stat_id = uuid4 ev, parent = target, created_at = now ev, via_qrcode = qr,
            device_type = dev, stat_city = city loc, stat_country = country loc,
            ip_address = ip, user_agent_string = ua\<rparr>,
          calls))"

definition http_response_redirect :: "env \<Rightarrow> string \<Rightarrow> exn + response" where
  "http_response_redirect ev target =
     (case response_redirect ev target of
        RedirectAccepted \<Rightarrow> Inr (HttpResponseRedirect target)
      | RedirectDisallowed \<Rightarrow> Inl DisallowedRedirect
      | RedirectInvalid \<Rightarrow> Inl ValueError)"

definition redirect_view ::
  "settings \<Rightarrow> env \<Rightarrow> request \<Rightarrow> string \<Rightarrow> world \<Rightarrow> (exn + response) \<times> world" where
  "redirect_view st ev req code w =
     (if is_reserved st code then (Inr (Render404 (REDIRECT_URL st)), w)
      else
        (let w1 = w\<lparr>db_log := db_log w @ [UrlGet code]\<rparr>
         in case objects_get (\<lambda>u. short_code u = code \<and> url_is_active u) (urls w) of
              Inl DoesNotExist \<Rightarrow> (Inr (Render404 (REDIRECT_URL st)), w1)
            | Inl e \<Rightarrow> (Inl e, w1)
            | Inr u \<Rightarrow>
                (let (row, calls) = track st ev req (url_id u)
                 in (http_response_redirect ev (long_url u),
                     w1\<lparr>url_stats := url_stats w1 @ [row],
                        db_log := db_log w1 @ [UrlStatCreate (url_id u)],
                        http_log := http_log w1 @ calls\<rparr>))))"

text \<open>
  \<open>Link.objects.get(id=link_id, is_active=True)\<close>; every exception of the lookup is
  caught by the view.
\<close>

definition link_objects_get :: "link_key \<Rightarrow> link list \<Rightarrow> exn + link" where
  "link_objects_get key rows =
     (case key of
        Invalid v \<Rightarrow> Inl (ValidationError (v @ '' is not a valid UUID.''))
      | Uuid i \<Rightarrow> objects_get (\<lambda>l. link_id l = i \<and> link_is_active l) rows)"

definition link_redirect ::
  "settings \<Rightarrow> env \<Rightarrow> request \<Rightarrow> link_key \<Rightarrow> world \<Rightarrow> (exn + response) \<times> world" where
  "link_redirect st ev req key w =
     (let w1 = w\<lparr>db_log := db_log w @ [LinkGet key]\<rparr>
      in case link_objects_get key (links w) of
           Inl e \<Rightarrow> (Inr (Render404 (REDIRECT_URL st)), w1)
         | Inr l \<Rightarrow>
             (let (row, calls) = track st ev req (link_id l)
              in (http_response_redirect ev (link_url l),
                  w1\<lparr>link_stats := link_stats w1 @ [row],
                     db_log := db_log w1 @ [LinkStatCreate (link_id l)],
                     http_log := http_log w1 @ calls\<rparr>)))"

section \<open>Statistics window\<close>

text \<open>
  The whitespace that \<open>int\<close> skips at both ends of a string; it is not the set of
  \<open>str.strip\<close> (U+001C to U+001F are not skipped).
\<close>

definition int_isspace :: "char \<Rightarrow> bool" where
  "int_isspace c =
     (let n = (of_char c :: nat)
      in (9 \<le> n \<and> n \<le> 13) \<or> n = 32 \<or> n = 133 \<or> n = 160)"

definition int_strip :: "string \<Rightarrow> string" where
  "int_strip s = rev (dropWhile int_isspace (rev (dropWhile int_isspace s)))"

text \<open>
  Python's \<open>int(s)\<close> on a string, base ten: surrounding whitespace is dropped, a sign
  may come first, then decimal digits, with single underscores allowed between digits.
  Anything else raises \<open>ValueError\<close> (\<open>None\<close> here), and so does a literal of
  more digits than the interpreter's limit (4300 unless configured otherwise).
\<close>

definition isdigit :: "char \<Rightarrow> bool" where
  "isdigit c = (c \<in> set digits)"

fun after_digit :: "string \<Rightarrow> bool" where
  "after_digit [] = True"
| "after_digit (c # cs) =
     (if isdigit c then after_digit cs
      else if c = CHR ''_'' then (case cs of [] \<Rightarrow> False | d # _ \<Rightarrow> isdigit d \<and> after_digit cs)
      else False)"

definition MAX_STR_DIGITS :: nat where
  "MAX_STR_DIGITS = 4300"

definition valid_literal :: "string \<Rightarrow> bool" where
  "valid_literal s =
     (case s of
        [] \<Rightarrow> False
      | c # cs \<Rightarrow> isdigit c \<and> after_digit cs \<and> length (filter isdigit s) \<le> MAX_STR_DIGITS)"

definition digit_value :: "char \<Rightarrow> int" where
  "digit_value c = int (of_char c) - 48"

definition literal_value :: "string \<Rightarrow> int" where
  "literal_value s = foldl (\<lambda>acc c. acc * 10 + digit_value c) 0 (filter (\<lambda>c. c \<noteq> CHR ''_'') s)"

definition py_int :: "string \<Rightarrow> int option" where
  "py_int s =
     (case int_strip s of
        [] \<Rightarrow> None
      | c # cs \<Rightarrow>
          (if c = CHR ''-'' then (if valid_literal cs then Some (- literal_value cs) else None)
           else if c = CHR ''+'' then (if valid_literal cs then Some (literal_value cs) else None)
           else if valid_literal (c # cs) then Some (literal_value (c # cs)) else None))"

text \<open>
  \<open>timedelta(days=d)\<close> raises \<open>OverflowError\<close> beyond 999999999 days, and so does a
  \<open>datetime\<close> subtraction whose result leaves the years 1 to 9999.
\<close>

definition DATETIME_MIN :: int where
  "DATETIME_MIN = - 62135596800"

definition DATETIME_MAX :: int where
  "DATETIME_MAX = 253402300799"

definition timedelta_days :: "int \<Rightarrow> exn + int" where
  "timedelta_days d = (if \<bar>d\<bar> > 999999999 then Inl OverflowError else Inr (d * 86400))"

definition datetime_sub :: "int \<Rightarrow> int \<Rightarrow> exn + int" where
  "datetime_sub t delta =
     (if t - delta < DATETIME_MIN \<or> DATETIME_MAX < t - delta then Inl OverflowError
      else Inr (t - delta))"

text \<open>
  The first two statements of \<open>UrlViewSet.stats\<close>, \<open>LinkViewSet.stats\<close> and both
  \<open>dashboard_stats\<close>: the \<open>days\<close> parameter and \<open>start_date\<close>.
\<close>

definition query_days :: "request \<Rightarrow> exn + int" where
  "query_days req =
     (case GET req ''days'' of
        None \<Rightarrow> Inr 30
      | Some s \<Rightarrow> (case py_int s of None \<Rightarrow> Inl ValueError | Some d \<Rightarrow> Inr d))"

definition start_date :: "request \<Rightarrow> int \<Rightarrow> exn + int" where
  "start_date req t =
     (case query_days req of
        Inl e \<Rightarrow> Inl e
      | Inr days \<Rightarrow>
          (case timedelta_days days of
             Inl e \<Rightarrow> Inl e
           | Inr delta \<Rightarrow> datetime_sub t delta))"

section \<open>Stats aggregator\<close>

text \<open>
  \<open>.values(k).annotate(count=Count('id'))\<close>: one row per distinct key, with the number
  of rows that have it. The order of the groups is the store's choice; here it is the
  order of \<^const>\<open>remdups\<close>. \<open>order_by\<close> is a stable sort of these rows.
\<close>

definition group_count :: "'k list \<Rightarrow> ('k \<times> int) list" where
  "group_count ks = map (\<lambda>k. (k, int (count_list ks k))) (remdups ks)"

definition order_by_count_desc :: "('k \<times> int) list \<Rightarrow> ('k \<times> int) list" where
  "order_by_count_desc rows = sort_key (\<lambda>r. - snd r) rows"

text \<open>\<open>TruncDate('created_at')\<close>: the calendar day, as a number of days since the epoch.\<close>

definition trunc_date :: "settings \<Rightarrow> int \<Rightarrow> int" where
  "trunc_date st t = (t + TIME_ZONE st) div 86400"

record stats_summary =
  total_clicks :: int
  qrcode_clicks :: int
  direct_clicks :: int
  clicks_by_device :: "string \<rightharpoonup> int"
  clicks_by_country :: "(string \<times> int) list"
  clicks_by_day :: "(int \<times> int) list"

text \<open>
  The body of \<open>UrlViewSet.stats\<close> and of \<open>LinkViewSet.stats\<close> after \<open>get_object()\<close>;
  \<open>related\<close> is \<open>url.stats\<close> (\<open>link.stats\<close>), the rows of the object.
\<close>

definition aggregate :: "settings \<Rightarrow> request \<Rightarrow> int \<Rightarrow> stat list \<Rightarrow> exn + stats_summary" where
  "aggregate st req t related =
     (case start_date req t of
        Inl e \<Rightarrow> Inl e
      | Inr start \<Rightarrow>
          (let stats = filter (\<lambda>s. start \<le> created_at s) related;
               total = int (length stats);
               qr = int (length (filter via_qrcode stats))
           in Inr \<lparr>total_clicks = total,
                   qrcode_clicks = qr,
                   direct_clicks = total - qr,
                   clicks_by_device = map_of (group_count (map device_type stats)),
                   clicks_by_country =
                     take 10 (order_by_count_desc
                       (group_count (List.map_filter stat_country stats))),
                   clicks_by_day =
                     sort_key fst (group_count (map (\<lambda>s. trunc_date st (created_at s)) stats))\<rparr>))"

definition UrlViewSet_stats ::
  "settings \<Rightarrow> request \<Rightarrow> int \<Rightarrow> url \<Rightarrow> world \<Rightarrow> exn + stats_summary" where
  "UrlViewSet_stats st req t u w =
     aggregate st req t (filter (\<lambda>s. parent s = url_id u) (url_stats w))"

definition LinkViewSet_stats ::
  "settings \<Rightarrow> request \<Rightarrow> int \<Rightarrow> link \<Rightarrow> world \<Rightarrow> exn + stats_summary" where
  "LinkViewSet_stats st req t l w =
     aggregate st req t (filter (\<lambda>s. parent s = link_id l) (link_stats w))"

section \<open>Dashboard: top URLs and top links\<close>

text \<open>
  \<open>top_urls\<close> of \<open>app_tinyurl.views.dashboard_stats\<close>: \<open>click_count\<close> is
  \<open>Count('stats', filter=Q(stats__created_at__gte=start_date))\<close>, the rows with
  \<open>click_count > 0\<close> are kept, ordered by \<open>-click_count\<close> and cut at ten. A row of
  the result is \<open>(id, short_code, long_url, click_count)\<close>.
\<close>

definition url_click_count :: "int \<Rightarrow> stat list \<Rightarrow> url \<Rightarrow> int" where
  "url_click_count start table u =
     int (length (filter (\<lambda>s. parent s = url_id u \<and> start \<le> created_at s) table))"

definition top_urls :: "int \<Rightarrow> world \<Rightarrow> (url \<times> int) list" where
  "top_urls start w =
     take 10 (order_by_count_desc
       (filter (\<lambda>r. 0 < snd r)
          (map (\<lambda>u. (u, url_click_count start (url_stats w) u)) (urls w))))"

text \<open>
  \<open>top_links\<close> of \<open>app_linktree.views.dashboard_stats\<close>:
  \<open>Link.objects.annotate(click_count=Count('stats')).filter(stats__created_at__gte=start_date)\<close>.
  The annotation joins \<open>LinkStat\<close> once; the later \<open>filter\<close> on the same multi-valued
  relation joins it a second time, with the date condition. \<open>Count('stats')\<close> counts the
  rows of the first join in the product, grouped by link.
\<close>

definition link_join_rows :: "int \<Rightarrow> stat list \<Rightarrow> link \<Rightarrow> (stat \<times> stat) list" where
  "link_join_rows start table l =
     concat (map (\<lambda>s1. map (\<lambda>s2. (s1, s2))
                    (filter (\<lambda>s2. parent s2 = link_id l \<and> start \<le> created_at s2) table))
              (filter (\<lambda>s1. parent s1 = link_id l) table))"

definition link_click_count :: "int \<Rightarrow> stat list \<Rightarrow> link \<Rightarrow> int" where
  "link_click_count start table l = int (length (link_join_rows start table l))"

definition top_links :: "int \<Rightarrow> world \<Rightarrow> (link \<times> int) list" where
  "top_links start w =
     take 10 (order_by_count_desc
       (filter (\<lambda>r. link_join_rows start (link_stats w) (fst r) \<noteq> [])
          (map (\<lambda>l. (l, link_click_count start (link_stats w) l)) (links w))))"

text \<open>The number of click events of an object that fall in the window.\<close>

definition clicks_in_window :: "int \<Rightarrow> stat list \<Rightarrow> uuid \<Rightarrow> int" where
  "clicks_in_window start table i =
     int (length (filter (\<lambda>s. parent s = i \<and> start \<le> created_at s) table))"




definition tinyurl_dashboard_top_urls :: "request \<Rightarrow> int \<Rightarrow> world \<Rightarrow> exn + (url \<times> int) list" where
  "tinyurl_dashboard_top_urls req t w =
     (case start_date req t of Inl e \<Rightarrow> Inl e | Inr start \<Rightarrow> Inr (top_urls start w))"

definition linktree_dashboard_top_links :: "request \<Rightarrow> int \<Rightarrow> world \<Rightarrow> exn + (link \<times> int) list" where
  "linktree_dashboard_top_links req t w =
     (case start_date req t of Inl e \<Rightarrow> Inl e | Inr start \<Rightarrow> Inr (top_links start w))"

section \<open>Identifier generator and the Url serializer\<close>

text \<open>
  The random source is a sequence of draws \<open>rnd\<close> and a position in it;
  \<open>random.choice(seq)\<close> takes the next draw as an index into \<open>seq\<close>.
\<close>

definition chars :: string where
  "chars = filter (\<lambda>c. c \<notin> set ''O0l1I'') (ascii_letters @ digits)"

definition choice :: "string \<Rightarrow> nat \<Rightarrow> char" where
  "choice seq r = seq ! (r mod length seq)"

definition generate_short_code :: "(nat \<Rightarrow> nat) \<Rightarrow> nat \<Rightarrow> nat \<Rightarrow> string \<times> nat" where
  "generate_short_code rnd pos n = (map (\<lambda>i. choice chars (rnd (pos + i))) [0..<n], pos + n)"

definition DEFAULT_LENGTH :: nat where
  "DEFAULT_LENGTH = 6"

text \<open>\<open>Url.objects.filter(short_code=code).exists()\<close>\<close>

definition code_exists :: "url list \<Rightarrow> string \<Rightarrow> bool" where
  "code_exists table code = (filter (\<lambda>u. short_code u = code) table \<noteq> [])"

text \<open>
  The \<open>for _ in range(10)\<close> loop of \<open>_ensure_short_code\<close> with \<open>n\<close> rounds left:
  the free code found (\<open>None\<close> when the loop ends without \<open>break\<close>) and the position
  of the random source afterwards.
\<close>

fun attempts :: "nat \<Rightarrow> (nat \<Rightarrow> nat) \<Rightarrow> nat \<Rightarrow> url list \<Rightarrow> string option \<times> nat" where
  "attempts 0 rnd pos table = (None, pos)"
| "attempts (Suc n) rnd pos table =
     (let (code, pos') = generate_short_code rnd pos DEFAULT_LENGTH
      in if \<not> code_exists table code then (Some code, pos')
         else attempts n rnd pos' table)"

text \<open>\<open>validated_data\<close>: a field is \<open>None\<close> when the key is not in the dict.\<close>

record validated_data =
  vd_short_code :: "string option"
  vd_long_url :: "string option"
  vd_is_active :: "bool option"

definition capacity_message :: string where
  "capacity_message = ''Could not generate unique short code. Please try again.''"

definition ensure_short_code ::
  "(nat \<Rightarrow> nat) \<Rightarrow> nat \<Rightarrow> validated_data \<Rightarrow> url list \<Rightarrow> exn + validated_data \<times> nat" where
  "ensure_short_code rnd pos vd table =
     (if vd_short_code vd = None \<or> vd_short_code vd = Some [] then
        (case attempts 10 rnd pos table of
           (None, pos') \<Rightarrow> Inl (ValidationError capacity_message)
         | (Some code, pos') \<Rightarrow> Inr (vd\<lparr>vd_short_code := Some code\<rparr>, pos'))
      else Inr (vd, pos))"

definition validate_short_code :: "settings \<Rightarrow> string \<Rightarrow> exn + string" where
  "validate_short_code st v =
     (if is_reserved st v
      then Inl (ValidationError
                  ([CHR 0x27] @ v @ [CHR 0x27] @
                   '' is a reserved path and cannot be used as a short code.''))
      else Inr v)"

text \<open>
  \<open>ModelSerializer.create\<close> and \<open>ModelSerializer.update\<close> write the validated fields
  to a new row or to the instance and save it; the store refuses a duplicate
  \<open>short_code\<close> (\<open>unique=True\<close>).
\<close>

definition model_create :: "uuid \<Rightarrow> validated_data \<Rightarrow> url list \<Rightarrow> exn + url list" where
  "model_create new_id vd table =
     (let row = \<lparr>url_id = new_id,
                 short_code = (case vd_short_code vd of None \<Rightarrow> [] | Some c \<Rightarrow> c),
                 long_url = (case vd_long_url vd of None \<Rightarrow> [] | Some l \<Rightarrow> l),
                 url_is_active = (case vd_is_active vd of None \<Rightarrow> True | Some a \<Rightarrow> a)\<rparr>
      in if code_exists table (short_code row) then Inl IntegrityError
         else Inr (table @ [row]))"

definition model_update :: "uuid \<Rightarrow> validated_data \<Rightarrow> url list \<Rightarrow> exn + url list" where
  "model_update inst vd table =
     (let upd = (\<lambda>u. \<lparr>url_id = url_id u,
                      short_code = (case vd_short_code vd of None \<Rightarrow> short_code u | Some c \<Rightarrow> c),
                      long_url = (case vd_long_url vd of None \<Rightarrow> long_url u | Some l \<Rightarrow> l),
                      url_is_active = (case vd_is_active vd of None \<Rightarrow> url_is_active u | Some a \<Rightarrow> a)\<rparr>)
      in if (\<exists>u \<in> set table. url_id u \<noteq> inst \<and> Some (short_code u) = vd_short_code vd)
         then Inl IntegrityError
         else Inr (map (\<lambda>u. if url_id u = inst then upd u else u) table))"

definition create ::
  "(nat \<Rightarrow> nat) \<Rightarrow> nat \<Rightarrow> uuid \<Rightarrow> validated_data \<Rightarrow> url list \<Rightarrow> exn + url list" where
  "create rnd pos new_id vd table =
     (case ensure_short_code rnd pos vd table of
        Inl e \<Rightarrow> Inl e
      | Inr (vd', pos') \<Rightarrow> model_create new_id vd' table)"

definition update ::
  "(nat \<Rightarrow> nat) \<Rightarrow> nat \<Rightarrow> uuid \<Rightarrow> validated_data \<Rightarrow> url list \<Rightarrow> exn + url list" where
  "update rnd pos inst vd table =
     (case ensure_short_code rnd pos vd table of
        Inl e \<Rightarrow> Inl e
      | Inr (vd', pos') \<Rightarrow> model_update inst vd' table)"

text \<open>
  The serializer as the CRUD views run it: the field-level hook \<open>validate_short_code\<close>
  on the \<open>short_code\<close> of the request when there is one, then \<open>create\<close> or
  \<open>update\<close>. The field validators of the framework itself are not modelled.
\<close>

definition run_validation :: "settings \<Rightarrow> validated_data \<Rightarrow> exn + validated_data" where
  "run_validation st data =
     (case vd_short_code data of
        None \<Rightarrow> Inr data
      | Some v \<Rightarrow>
          (case validate_short_code st v of
             Inl e \<Rightarrow> Inl e
           | Inr v' \<Rightarrow> Inr (data\<lparr>vd_short_code := Some v'\<rparr>)))"

definition save_create ::
  "settings \<Rightarrow> (nat \<Rightarrow> nat) \<Rightarrow> nat \<Rightarrow> uuid \<Rightarrow> validated_data \<Rightarrow> url list \<Rightarrow> exn + url list" where
  "save_create st rnd pos new_id data table =
     (case run_validation st data of
        Inl e \<Rightarrow> Inl e
      | Inr vd \<Rightarrow> create rnd pos new_id vd table)"

definition save_update ::
  "settings \<Rightarrow> (nat \<Rightarrow> nat) \<Rightarrow> nat \<Rightarrow> uuid \<Rightarrow> validated_data \<Rightarrow> url list \<Rightarrow> exn + url list" where
  "save_update st rnd pos inst data table =
     (case run_validation st data of
        Inl e \<Rightarrow> Inl e
      | Inr vd \<Rightarrow> update rnd pos inst vd table)"

section \<open>Notions of the specification\<close>

text \<open>
  Equality of two strings up to the case of their letters, by the table of the
  upper-case letters below 256 and their lower-case forms.
\<close>

definition latin1_uppercase :: string where
  "latin1_uppercase =
     [CHR 0xC0, CHR 0xC1, CHR 0xC2, CHR 0xC3, CHR 0xC4, CHR 0xC5, CHR 0xC6, CHR 0xC7,
      CHR 0xC8, CHR 0xC9, CHR 0xCA, CHR 0xCB, CHR 0xCC, CHR 0xCD, CHR 0xCE, CHR 0xCF,
      CHR 0xD0, CHR 0xD1, CHR 0xD2, CHR 0xD3, CHR 0xD4, CHR 0xD5, CHR 0xD6, CHR 0xD8,
      CHR 0xD9, CHR 0xDA, CHR 0xDB, CHR 0xDC, CHR 0xDD, CHR 0xDE]"

definition latin1_lowercase :: string where
  "latin1_lowercase =
     [CHR 0xE0, CHR 0xE1, CHR 0xE2, CHR 0xE3, CHR 0xE4, CHR 0xE5, CHR 0xE6, CHR 0xE7,
      CHR 0xE8, CHR 0xE9, CHR 0xEA, CHR 0xEB, CHR 0xEC, CHR 0xED, CHR 0xEE, CHR 0xEF,
      CHR 0xF0, CHR 0xF1, CHR 0xF2, CHR 0xF3, CHR 0xF4, CHR 0xF5, CHR 0xF6, CHR 0xF8,
      CHR 0xF9, CHR 0xFA, CHR 0xFB, CHR 0xFC, CHR 0xFD, CHR 0xFE]"

definition case_pairs :: "(char \<times> char) list" where
  "case_pairs = zip (ascii_uppercase @ latin1_uppercase) (ascii_lowercase @ latin1_lowercase)"

definition same_letter :: "char \<Rightarrow> char \<Rightarrow> bool" where
  "same_letter c d = (c = d \<or> (c, d) \<in> set case_pairs \<or> (d, c) \<in> set case_pairs)"

definition eq_ignoring_case :: "string \<Rightarrow> string \<Rightarrow> bool" where
  "eq_ignoring_case a b = list_all2 same_letter a b"

text \<open>
  The string \<open>true\<close> in every mix of upper and lower case, and the QR flag of
  a request as the specification words it: the \<open>qrcode\<close> query parameter equals
  \<open>true\<close>, case-insensitively.
\<close>

definition true_spellings :: "string list" where
  "true_spellings = [''true'', ''truE'', ''trUe'', ''trUE'', ''tRue'', ''tRuE'', ''tRUe'', ''tRUE'', ''True'', ''TruE'', ''TrUe'', ''TrUE'', ''TRue'', ''TRuE'', ''TRUe'', ''TRUE'']"

definition qrcode_flag :: "request \<Rightarrow> bool" where
  "qrcode_flag req = (case GET req ''qrcode'' of None \<Rightarrow> False | Some v \<Rightarrow> v \<in> set true_spellings)"

text \<open>The candidate that round \<open>k\<close> (from 0) of the allocation loop draws.\<close>

definition candidate :: "(nat \<Rightarrow> nat) \<Rightarrow> nat \<Rightarrow> nat \<Rightarrow> string" where
  "candidate rnd pos k = fst (generate_short_code rnd (pos + DEFAULT_LENGTH * k) DEFAULT_LENGTH)"

section \<open>Example inputs\<close>

definition both_flags_agent :: "string \<Rightarrow> exn + user_agent" where
  "both_flags_agent s = Inr \<lparr>is_mobile = True, is_tablet = True, is_pc = True\<rparr>"

definition geo_down :: "string \<Rightarrow> http_result" where
  "geo_down u = RequestRaised"

definition demo_settings :: settings where
  "demo_settings = \<lparr>TINYURL_RESERVED_PATHS = None, REDIRECT_URL = ''https://logmi.example/'',
                     IP_API = None, TIME_ZONE = 0\<rparr>"

text \<open>
  An instance of the check of \<open>HttpResponseRedirect\<close>: the scheme of the URL, when
  it has one, must be \<open>http\<close>, \<open>https\<close> or \<open>ftp\<close>.
\<close>

definition allowed_schemes :: "string list" where
  "allowed_schemes = [''http'', ''https'', ''ftp'']"

definition scheme_chars :: string where
  "scheme_chars = ascii_letters @ digits @ ''+-.''"

definition url_scheme :: "string \<Rightarrow> string" where
  "url_scheme target =
     (let p = takeWhile (\<lambda>c. c \<noteq> CHR '':'') target
      in if CHR '':'' \<in> set target \<and> p \<noteq> [] \<and> hd p \<in> set ascii_letters
            \<and> list_all (\<lambda>c. c \<in> set scheme_chars) p
         then lower p else [])"

definition scheme_check :: "string \<Rightarrow> redirect_check" where
  "scheme_check target =
     (if url_scheme target \<noteq> [] \<and> url_scheme target \<notin> set allowed_schemes
      then RedirectDisallowed else RedirectAccepted)"

definition demo_env :: env where
  "demo_env = \<lparr>parse_user_agent = both_flags_agent, requests_get = geo_down,
                response_redirect = scheme_check, now = 1700000000, uuid4 = 99\<rparr>"

definition demo_request :: request where
  "demo_request = \<lparr>GET = [''qrcode'' \<mapsto> ''TRUE''],
                    META = [''HTTP_USER_AGENT'' \<mapsto> ''Mozilla'', ''REMOTE_ADDR'' \<mapsto> ''127.0.0.1'']\<rparr>"

definition demo_world :: world where
  "demo_world =
     \<lparr>urls = [\<lparr>url_id = 1, short_code = ''abc234'', long_url = ''https://example.org/page'',
                url_is_active = True\<rparr>,
              \<lparr>url_id = 2, short_code = ''static'', long_url = ''https://example.org/s'',
                url_is_active = True\<rparr>,
              \<lparr>url_id = 3, short_code = ''old234'', long_url = ''https://example.org/old'',
                url_is_active = False\<rparr>,
              \<lparr>url_id = 5, short_code = ''ftp567'', long_url = ''ftps://files.example.org/data'',
                url_is_active = True\<rparr>],
      url_stats = [],
      links = [\<lparr>link_id = 10, link_name = ''Blog'', link_url = ''https://blog.example.org/'',
                 link_is_active = True\<rparr>,
               \<lparr>link_id = 11, link_name = ''Shop'', link_url = ''https://shop.example.org/'',
                 link_is_active = False\<rparr>],
      link_stats = [],
      db_log = [],
      http_log = []\<rparr>"

text \<open>
  The worked example of the statistics: three click events of one object, two on day
  19000 (from France, one by QR code on a mobile, one on a desktop) and one on day 19001
  (from the United States, on a mobile); the request is made on day 19001 at noon.
\<close>

definition example_events :: "uuid \<Rightarrow> stat list" where
  "example_events p =
     [\<lparr>stat_id = 101, parent = p, created_at = 1641603600, via_qrcode = True,
        device_type = ''mobile'', stat_city = Some ''Paris'', stat_country = Some ''FR'',
        ip_address = Some ''203.0.113.5'', user_agent_string = ''Mozilla''\<rparr>,
      \<lparr>stat_id = 102, parent = p, created_at = 1641607200, via_qrcode = False,
        device_type = ''desktop'', stat_city = Some ''Lyon'', stat_country = Some ''FR'',
        ip_address = Some ''203.0.113.6'', user_agent_string = ''Mozilla''\<rparr>,
      \<lparr>stat_id = 103, parent = p, created_at = 1641690000, via_qrcode = False,
        device_type = ''mobile'', stat_city = Some ''Boston'', stat_country = Some ''US'',
        ip_address = Some ''198.51.100.7'', user_agent_string = ''Mozilla''\<rparr>]"

definition example_now :: int where
  "example_now = 1641729600"

definition example_world :: world where
  "example_world = demo_world\<lparr>url_stats := example_events 1, link_stats := example_events 10\<rparr>"

definition plain_request :: request where
  "plain_request = \<lparr>GET = Map.empty, META = Map.empty\<rparr>"


definition example_url :: url where
  "example_url = \<lparr>url_id = 1, short_code = ''abc234'', long_url = ''https://example.org/page'',
                   url_is_active = True\<rparr>"

definition example_link :: link where
  "example_link = \<lparr>link_id = 10, link_name = ''Blog'', link_url = ''https://blog.example.org/'',
                    link_is_active = True\<rparr>"

definition example_url_summary :: "exn + stats_summary" where
  "example_url_summary =
     UrlViewSet_stats demo_settings plain_request example_now example_url example_world"

definition example_link_summary :: "exn + stats_summary" where
  "example_link_summary =
     LinkViewSet_stats demo_settings plain_request example_now example_link example_world"

text \<open>
  A random source whose draws repeat the indices of \<open>s\<close>, \<open>t\<close>, \<open>a\<close>, \<open>t\<close>,
  \<open>i\<close>, \<open>c\<close> in the alphabet of the generator, and a creation request without a
  short code.
\<close>

definition rnd_static :: "nat \<Rightarrow> nat" where
  "rnd_static i = [17, 18, 0, 18, 8, 2] ! (i mod 6)"

definition new_url_data :: validated_data where
  "new_url_data = \<lparr>vd_short_code = None, vd_long_url = Some ''https://example.org/new'',
                    vd_is_active = None\<rparr>"

definition static_url :: url where
  "static_url = \<lparr>url_id = 4, short_code = ''static'', long_url = ''https://example.org/new'',
                  url_is_active = True\<rparr>"

text \<open>
  A store for the ranking: object 20 has four click events before the window and one
  in it, object 21 has two click events, both in the window.
\<close>

definition click :: "uuid \<Rightarrow> uuid \<Rightarrow> int \<Rightarrow> stat" where
  "click i p t = \<lparr>stat_id = i, parent = p, created_at = t, via_qrcode = False,
                  device_type = ''desktop'', stat_city = None, stat_country = None,
                  ip_address = None, user_agent_string = ''Mozilla''\<rparr>"

definition ranking_clicks :: "stat list" where
  "ranking_clicks =
     [click 201 20 1600000000, click 202 20 1600000001, click 203 20 1600000002,
      click 204 20 1600000003, click 205 20 1641603600,
      click 206 21 1641603601, click 207 21 1641603602]"

definition ranking_world :: world where
  "ranking_world =
     \<lparr>urls = [\<lparr>url_id = 20, short_code = ''aaa222'', long_url = ''https://a.example.org/'',
                url_is_active = True\<rparr>,
              \<lparr>url_id = 21, short_code = ''bbb333'', long_url = ''https://b.example.org/'',
                url_is_active = True\<rparr>],
      url_stats = ranking_clicks,
      links = [\<lparr>link_id = 20, link_name = ''A'', link_url = ''https://a.example.org/'',
                 link_is_active = True\<rparr>,
               \<lparr>link_id = 21, link_name = ''B'', link_url = ''https://b.example.org/'',
                 link_is_active = True\<rparr>],
      link_stats = ranking_clicks,
      db_log = [],
      http_log = []\<rparr>"

section \<open>Auxiliary facts\<close>

lemma of_char_lower:
  "(of_char (lower_char c) :: nat) = (if upper_letter c then of_char c + 32 else of_char c)"
  by (auto simp: lower_char_def upper_letter_def Let_def)

lemma lower_char_code:
  assumes "97 \<le> k" and "k \<le> 122"
  shows "(of_char (lower_char c) :: nat) = k \<longleftrightarrow>
           (of_char c :: nat) = k \<or> (of_char c :: nat) = k - 32"
  using assms by (auto simp: of_char_lower upper_letter_def Let_def)

lemma lower_char_letter:
  assumes "(of_char d :: nat) = k" and "(of_char u :: nat) = k - 32" and "97 \<le> k" and "k \<le> 122"
  shows "lower_char c = d \<longleftrightarrow> c = d \<or> c = u"
proof -
  have "lower_char c = d \<longleftrightarrow> (of_char (lower_char c) :: nat) = of_char d"
    by (simp only: of_char_eq_iff)
  also have "\<dots> \<longleftrightarrow> (of_char c :: nat) = of_char d \<or> (of_char c :: nat) = of_char u"
    using assms lower_char_code [of k c] by simp
  also have "\<dots> \<longleftrightarrow> c = d \<or> c = u"
    by (simp only: of_char_eq_iff)
  finally show ?thesis .
qed

lemma lower_char_true_letters:
  "lower_char c = CHR ''t'' \<longleftrightarrow> c = CHR ''t'' \<or> c = CHR ''T''"
  "lower_char c = CHR ''r'' \<longleftrightarrow> c = CHR ''r'' \<or> c = CHR ''R''"
  "lower_char c = CHR ''u'' \<longleftrightarrow> c = CHR ''u'' \<or> c = CHR ''U''"
  "lower_char c = CHR ''e'' \<longleftrightarrow> c = CHR ''e'' \<or> c = CHR ''E''"
  by (rule lower_char_letter [where k = 116], simp_all)
     (rule lower_char_letter [where k = 114], simp_all,
      rule lower_char_letter [where k = 117], simp_all,
      rule lower_char_letter [where k = 101], simp_all)

lemma lower_true_shape:
  "lower v = ''true'' \<longleftrightarrow>
     (\<exists>a b c d. v = [a, b, c, d] \<and> lower_char a = CHR ''t'' \<and> lower_char b = CHR ''r''
        \<and> lower_char c = CHR ''u'' \<and> lower_char d = CHR ''e'')"
  unfolding lower_def by (cases v rule: list.exhaust; simp add: map_eq_Cons_conv; blast)

lemma lower_true_iff: "lower v = ''true'' \<longleftrightarrow> v \<in> set true_spellings"
proof
  assume "lower v = ''true''"
  then obtain a b c d where v: "v = [a, b, c, d]"
    and a: "a = CHR ''t'' \<or> a = CHR ''T''" and b: "b = CHR ''r'' \<or> b = CHR ''R''"
    and c: "c = CHR ''u'' \<or> c = CHR ''U''" and d: "d = CHR ''e'' \<or> d = CHR ''E''"
    unfolding lower_true_shape lower_char_true_letters by blast
  from a b c d show "v \<in> set true_spellings"
    unfolding v true_spellings_def by (elim disjE) simp_all
next
  assume "v \<in> set true_spellings"
  then have "\<exists>a b c d. v = [a, b, c, d] \<and> (a = CHR ''t'' \<or> a = CHR ''T'')
      \<and> (b = CHR ''r'' \<or> b = CHR ''R'') \<and> (c = CHR ''u'' \<or> c = CHR ''U'')
      \<and> (d = CHR ''e'' \<or> d = CHR ''E'')"
    unfolding true_spellings_def by (elim disjE | simp)+
  then show "lower v = ''true''"
    unfolding lower_true_shape lower_char_true_letters .
qed

lemma Nil_not_true_spelling: "[] \<notin> set true_spellings"
  by (simp add: true_spellings_def)

lemma track_fields:
  "parent (fst (track st ev req i)) = i"
  "via_qrcode (fst (track st ev req i)) = qrcode_flag req"
  by (simp_all add: track_def Let_def qrcode_flag_def lower_true_iff Nil_not_true_spelling
        split: prod.splits option.splits)

text \<open>
  The table of the letter pairs and \<open>str.lower\<close> agree: two strings have the same
  lower-case form exactly when they are equal up to the case of their letters.
\<close>

lemma upper_codes_set:
  "n \<in> set ([65..<91] @ [192..<215] @ [216..<223]) \<longleftrightarrow>
     (65 \<le> n \<and> n \<le> 90) \<or> (192 \<le> n \<and> n \<le> 222 \<and> n \<noteq> 215)"
proof -
  have "n \<in> set ([65..<91] @ [192..<215] @ [216..<223]) \<longleftrightarrow>
          (65 \<le> n \<and> n < 91) \<or> (192 \<le> n \<and> n < 215) \<or> (216 \<le> n \<and> n < 223)"
    by (simp only: set_append set_upt Un_iff atLeastLessThan_iff)
  also have "\<dots> \<longleftrightarrow> (65 \<le> n \<and> n \<le> 90) \<or> (192 \<le> n \<and> n \<le> 222 \<and> n \<noteq> 215)"
    by arith
  finally show ?thesis .
qed

lemma case_pairs_codes:
  "map (\<lambda>p. (of_char (fst p) :: nat, of_char (snd p) :: nat)) case_pairs
     = map (\<lambda>n. (n, n + 32)) ([65..<91] @ [192..<215] @ [216..<223])"
  by (simp add: case_pairs_def ascii_uppercase_def ascii_lowercase_def
        latin1_uppercase_def latin1_lowercase_def)

lemma in_shifted_image: "(a, b) \<in> (\<lambda>n::nat. (n, n + 32)) ` A \<longleftrightarrow> a \<in> A \<and> b = a + 32"
  by auto

lemma in_case_pairs:
  "(c, d) \<in> set case_pairs \<longleftrightarrow> upper_letter c \<and> (of_char d :: nat) = of_char c + 32"
proof -
  have inj: "inj (\<lambda>p::char \<times> char. (of_char (fst p) :: nat, of_char (snd p) :: nat))"
    by (auto simp: inj_def prod_eq_iff)
  have "(c, d) \<in> set case_pairs \<longleftrightarrow>
          (of_char c :: nat, of_char d :: nat)
            \<in> (\<lambda>p. (of_char (fst p) :: nat, of_char (snd p) :: nat)) ` set case_pairs"
    using inj_image_mem_iff [OF inj, of "(c, d)" "set case_pairs"] by simp
  also have "\<dots> \<longleftrightarrow> (of_char c :: nat, of_char d :: nat)
            \<in> (\<lambda>n. (n, n + 32)) ` set ([65..<91] @ [192..<215] @ [216..<223])"
    by (simp only: set_map [symmetric] case_pairs_codes)
  also have "\<dots> \<longleftrightarrow> upper_letter c \<and> (of_char d :: nat) = of_char c + 32"
    by (simp only: in_shifted_image upper_codes_set upper_letter_def Let_def)
  finally show ?thesis .
qed

lemma lower_char_eq_iff: "lower_char c = lower_char d \<longleftrightarrow> same_letter c d"
proof -
  have "lower_char c = lower_char d \<longleftrightarrow>
          (of_char (lower_char c) :: nat) = of_char (lower_char d)"
    by (simp only: of_char_eq_iff)
  also have "\<dots> \<longleftrightarrow> (of_char c :: nat) = of_char d
       \<or> (upper_letter c \<and> (of_char d :: nat) = of_char c + 32)
       \<or> (upper_letter d \<and> (of_char c :: nat) = of_char d + 32)"
    by (auto simp: of_char_lower upper_letter_def Let_def)
  also have "\<dots> \<longleftrightarrow> same_letter c d"
    by (simp add: same_letter_def in_case_pairs)
  finally show ?thesis .
qed

lemma lower_eq_iff: "lower a = lower b \<longleftrightarrow> eq_ignoring_case a b"
  unfolding lower_def eq_ignoring_case_def
proof (induction a arbitrary: b)
  case Nil
  then show ?case by auto
next
  case (Cons x xs)
  then show ?case by (cases b) (auto simp: lower_char_eq_iff)
qed

lemma lower_alphabets:
  "lower ascii_uppercase = ascii_lowercase"
  "lower latin1_uppercase = latin1_lowercase"
  "lower (ascii_lowercase @ latin1_lowercase @ digits) = ascii_lowercase @ latin1_lowercase @ digits"
  by code_simp+

lemma is_reserved_iff:
  "is_reserved st code \<longleftrightarrow> (\<exists>p\<in>set (reserved_paths st). eq_ignoring_case code p)"
  by (auto simp: is_reserved_def lower_eq_iff)

text \<open>The two redirect views, by the rows that the lookup finds.\<close>

lemma http_response_redirect_Inr:
  "http_response_redirect ev target = Inr r \<longleftrightarrow>
     response_redirect ev target = RedirectAccepted \<and> r = HttpResponseRedirect target"
  by (auto simp: http_response_redirect_def split: redirect_check.splits)

lemma http_response_redirect_Inl:
  "http_response_redirect ev target = Inl e \<longleftrightarrow>
     (response_redirect ev target = RedirectDisallowed \<and> e = DisallowedRedirect)
     \<or> (response_redirect ev target = RedirectInvalid \<and> e = ValueError)"
  by (auto simp: http_response_redirect_def split: redirect_check.splits)

lemma objects_get_Inr: "objects_get P rows = Inr r \<longleftrightarrow> filter P rows = [r]"
  by (auto simp: objects_get_def split: list.splits)

lemma link_objects_get_Inr:
  "link_objects_get key rows = Inr l \<longleftrightarrow>
     (\<exists>i. key = Uuid i \<and> filter (\<lambda>l. link_id l = i \<and> link_is_active l) rows = [l])"
  by (cases key) (simp_all add: link_objects_get_def objects_get_Inr)

lemma redirect_view_cases:
  "redirect_view st ev req code w =
     (if is_reserved st code then (Inr (Render404 (REDIRECT_URL st)), w)
      else
        (case filter (\<lambda>u. short_code u = code \<and> url_is_active u) (urls w) of
           [] \<Rightarrow> (Inr (Render404 (REDIRECT_URL st)), w\<lparr>db_log := db_log w @ [UrlGet code]\<rparr>)
         | [u] \<Rightarrow>
             (http_response_redirect ev (long_url u),
              w\<lparr>url_stats := url_stats w @ [fst (track st ev req (url_id u))],
                db_log := db_log w @ [UrlGet code, UrlStatCreate (url_id u)],
                http_log := http_log w @ snd (track st ev req (url_id u))\<rparr>)
         | _ \<Rightarrow> (Inl MultipleObjectsReturned, w\<lparr>db_log := db_log w @ [UrlGet code]\<rparr>)))"
  by (simp add: redirect_view_def objects_get_def Let_def split: list.splits prod.splits)

lemma link_redirect_cases:
  "link_redirect st ev req key w =
     (case key of
        Invalid v \<Rightarrow> (Inr (Render404 (REDIRECT_URL st)), w\<lparr>db_log := db_log w @ [LinkGet key]\<rparr>)
      | Uuid i \<Rightarrow>
          (case filter (\<lambda>l. link_id l = i \<and> link_is_active l) (links w) of
             [l] \<Rightarrow>
               (http_response_redirect ev (link_url l),
                w\<lparr>link_stats := link_stats w @ [fst (track st ev req (link_id l))],
                  db_log := db_log w @ [LinkGet key, LinkStatCreate (link_id l)],
                  http_log := http_log w @ snd (track st ev req (link_id l))\<rparr>)
           | _ \<Rightarrow> (Inr (Render404 (REDIRECT_URL st)), w\<lparr>db_log := db_log w @ [LinkGet key]\<rparr>)))"
  by (simp add: link_redirect_def link_objects_get_def objects_get_def Let_def
        split: link_key.splits list.splits prod.splits)

lemma redirect_view_resolved:
  assumes "\<not> is_reserved st code"
    and "filter (\<lambda>u. short_code u = code \<and> url_is_active u) (urls w) = [u]"
  shows "redirect_view st ev req code w =
           (http_response_redirect ev (long_url u),
            w\<lparr>url_stats := url_stats w @ [fst (track st ev req (url_id u))],
              db_log := db_log w @ [UrlGet code, UrlStatCreate (url_id u)],
              http_log := http_log w @ snd (track st ev req (url_id u))\<rparr>)"
  using assms by (simp add: redirect_view_cases)

lemma link_redirect_resolved:
  assumes "filter (\<lambda>l. link_id l = i \<and> link_is_active l) (links w) = [l]"
  shows "link_redirect st ev req (Uuid i) w =
           (http_response_redirect ev (link_url l),
            w\<lparr>link_stats := link_stats w @ [fst (track st ev req (link_id l))],
              db_log := db_log w @ [LinkGet (Uuid i), LinkStatCreate (link_id l)],
              http_log := http_log w @ snd (track st ev req (link_id l))\<rparr>)"
  using assms by (simp add: link_redirect_cases)

lemma redirect_view_redirected:
  assumes "fst (redirect_view st ev req code w) = Inr (HttpResponseRedirect d)"
  shows "\<exists>u. \<not> is_reserved st code
           \<and> filter (\<lambda>u. short_code u = code \<and> url_is_active u) (urls w) = [u]
           \<and> d = long_url u"
  using assms
  by (auto simp: redirect_view_cases http_response_redirect_Inr split: if_splits list.splits)

lemma link_redirect_redirected:
  assumes "fst (link_redirect st ev req key w) = Inr (HttpResponseRedirect d)"
  shows "\<exists>i l. key = Uuid i
           \<and> filter (\<lambda>l. link_id l = i \<and> link_is_active l) (links w) = [l]
           \<and> d = link_url l"
  using assms
  by (auto simp: link_redirect_cases http_response_redirect_Inr split: link_key.splits list.splits)

lemma redirect_view_not_found:
  assumes "fst (redirect_view st ev req code w) = Inr (Render404 p)"
  shows "url_stats (snd (redirect_view st ev req code w)) = url_stats w"
  using assms
  by (auto simp: redirect_view_cases http_response_redirect_Inr split: if_splits list.splits)

lemma link_redirect_not_found:
  assumes "fst (link_redirect st ev req key w) = Inr (Render404 p)"
  shows "link_stats (snd (link_redirect st ev req key w)) = link_stats w"
  using assms
  by (auto simp: link_redirect_cases http_response_redirect_Inr split: link_key.splits list.splits)

lemma filter_singletonD:
  assumes "filter P xs = [x]"
  shows "x \<in> set xs \<and> P x"
proof -
  have "x \<in> set (filter P xs)" using assms by simp
  then show ?thesis by simp
qed


section \<open>Device classifier: properties\<close>

text \<open>
  Claim C8. For every user-agent string the classifier returns one of \<open>mobile\<close>,
  \<open>tablet\<close>, \<open>desktop\<close>, \<open>unknown\<close>. The empty string gives \<open>unknown\<close>, and so
  does every string on which the parser raises: the error does not leave the function.
  When the parser sets several flags, \<open>mobile\<close> wins over \<open>tablet\<close>, \<open>tablet\<close> over
  \<open>desktop\<close>, and no flag at all gives \<open>unknown\<close>.
\<close>

theorem get_device_type_classifies:
  "get_device_type p ua \<in> {''mobile'', ''tablet'', ''desktop'', ''unknown''}
   \<and> get_device_type p [] = ''unknown''
   \<and> (\<forall>e. p ua = Inl e \<longrightarrow> get_device_type p ua = ''unknown'')
   \<and> (\<forall>a. ua \<noteq> [] \<and> p ua = Inr a \<longrightarrow>
         get_device_type p ua =
           (if is_mobile a then ''mobile'' else if is_tablet a then ''tablet''
            else if is_pc a then ''desktop'' else ''unknown''))"
  by (auto simp: get_device_type_def split: sum.splits)

theorem get_device_type_classifies_witness:
  "''Mozilla'' \<noteq> []
   \<and> both_flags_agent ''Mozilla'' = Inr \<lparr>is_mobile = True, is_tablet = True, is_pc = True\<rparr>
   \<and> get_device_type both_flags_agent ''Mozilla'' = ''mobile''"
  using get_device_type_classifies [of both_flags_agent "''Mozilla''"]
  by (simp add: both_flags_agent_def)

section \<open>Click recorder: properties\<close>

text \<open>
  Claim C3. In both redirect views, a request whose lookup finds the active link has
  appended exactly one row to the statistics table of the view before the redirect
  response is built: the row refers to that link, and its \<open>via_qrcode\<close> flag is true
  if and only if the \<open>qrcode\<close> query parameter is \<open>true\<close> in some mix of cases.
  Every request that ends in a redirect is such a request, for a stored active link with
  the identifier asked for. A request that ends in the 404 page leaves the statistics
  table as it was.
\<close>

theorem click_recorded_once:
  "(\<not> is_reserved st code
      \<and> objects_get (\<lambda>u. short_code u = code \<and> url_is_active u) (urls w) = Inr u \<longrightarrow>
      fst (redirect_view st ev req code w) = http_response_redirect ev (long_url u)
      \<and> (\<exists>row. url_stats (snd (redirect_view st ev req code w)) = url_stats w @ [row]
            \<and> parent row = url_id u \<and> via_qrcode row = qrcode_flag req))
   \<and> (\<forall>d. fst (redirect_view st ev req code w) = Inr (HttpResponseRedirect d) \<longrightarrow>
      (\<exists>u row. u \<in> set (urls w) \<and> short_code u = code \<and> url_is_active u \<and> d = long_url u
         \<and> url_stats (snd (redirect_view st ev req code w)) = url_stats w @ [row]
         \<and> parent row = url_id u \<and> via_qrcode row = qrcode_flag req))
   \<and> (\<forall>p. fst (redirect_view st ev req code w) = Inr (Render404 p) \<longrightarrow>
        url_stats (snd (redirect_view st ev req code w)) = url_stats w)
   \<and> (link_objects_get key (links w) = Inr l \<longrightarrow>
      fst (link_redirect st ev req key w) = http_response_redirect ev (link_url l)
      \<and> (\<exists>row. link_stats (snd (link_redirect st ev req key w)) = link_stats w @ [row]
            \<and> parent row = link_id l \<and> via_qrcode row = qrcode_flag req))
   \<and> (\<forall>d. fst (link_redirect st ev req key w) = Inr (HttpResponseRedirect d) \<longrightarrow>
      (\<exists>l row. l \<in> set (links w) \<and> key = Uuid (link_id l) \<and> link_is_active l \<and> d = link_url l
         \<and> link_stats (snd (link_redirect st ev req key w)) = link_stats w @ [row]
         \<and> parent row = link_id l \<and> via_qrcode row = qrcode_flag req))
   \<and> (\<forall>p. fst (link_redirect st ev req key w) = Inr (Render404 p) \<longrightarrow>
        link_stats (snd (link_redirect st ev req key w)) = link_stats w)"
proof -
  have 1: "\<not> is_reserved st code
      \<and> objects_get (\<lambda>u. short_code u = code \<and> url_is_active u) (urls w) = Inr u \<longrightarrow>
      fst (redirect_view st ev req code w) = http_response_redirect ev (long_url u)
      \<and> (\<exists>row. url_stats (snd (redirect_view st ev req code w)) = url_stats w @ [row]
            \<and> parent row = url_id u \<and> via_qrcode row = qrcode_flag req)"
  proof
    assume a: "\<not> is_reserved st code
      \<and> objects_get (\<lambda>u. short_code u = code \<and> url_is_active u) (urls w) = Inr u"
    then have f: "filter (\<lambda>u. short_code u = code \<and> url_is_active u) (urls w) = [u]"
      by (simp add: objects_get_Inr)
    from a have r: "\<not> is_reserved st code" by simp
    show "fst (redirect_view st ev req code w) = http_response_redirect ev (long_url u)
      \<and> (\<exists>row. url_stats (snd (redirect_view st ev req code w)) = url_stats w @ [row]
            \<and> parent row = url_id u \<and> via_qrcode row = qrcode_flag req)"
      by (simp add: redirect_view_resolved [OF r f] track_fields)
  qed
  have 2: "\<forall>d. fst (redirect_view st ev req code w) = Inr (HttpResponseRedirect d) \<longrightarrow>
      (\<exists>u row. u \<in> set (urls w) \<and> short_code u = code \<and> url_is_active u \<and> d = long_url u
         \<and> url_stats (snd (redirect_view st ev req code w)) = url_stats w @ [row]
         \<and> parent row = url_id u \<and> via_qrcode row = qrcode_flag req)"
  proof (intro allI impI)
    fix d assume "fst (redirect_view st ev req code w) = Inr (HttpResponseRedirect d)"
    from redirect_view_redirected [OF this]
    obtain u where r: "\<not> is_reserved st code"
      and f: "filter (\<lambda>u. short_code u = code \<and> url_is_active u) (urls w) = [u]"
      and d: "d = long_url u" by blast
    from filter_singletonD [OF f]
    have m: "u \<in> set (urls w)" "short_code u = code" "url_is_active u" by simp_all
    have "url_stats (snd (redirect_view st ev req code w))
            = url_stats w @ [fst (track st ev req (url_id u))]"
      by (simp add: redirect_view_resolved [OF r f])
    with m d track_fields
    show "\<exists>u row. u \<in> set (urls w) \<and> short_code u = code \<and> url_is_active u \<and> d = long_url u
         \<and> url_stats (snd (redirect_view st ev req code w)) = url_stats w @ [row]
         \<and> parent row = url_id u \<and> via_qrcode row = qrcode_flag req"
      by blast
  qed
  have 3: "\<forall>p. fst (redirect_view st ev req code w) = Inr (Render404 p) \<longrightarrow>
        url_stats (snd (redirect_view st ev req code w)) = url_stats w"
    using redirect_view_not_found by blast
  have 4: "link_objects_get key (links w) = Inr l \<longrightarrow>
      fst (link_redirect st ev req key w) = http_response_redirect ev (link_url l)
      \<and> (\<exists>row. link_stats (snd (link_redirect st ev req key w)) = link_stats w @ [row]
            \<and> parent row = link_id l \<and> via_qrcode row = qrcode_flag req)"
  proof
    assume "link_objects_get key (links w) = Inr l"
    then obtain i where k: "key = Uuid i"
      and f: "filter (\<lambda>l. link_id l = i \<and> link_is_active l) (links w) = [l]"
      by (auto simp: link_objects_get_Inr)
    show "fst (link_redirect st ev req key w) = http_response_redirect ev (link_url l)
      \<and> (\<exists>row. link_stats (snd (link_redirect st ev req key w)) = link_stats w @ [row]
            \<and> parent row = link_id l \<and> via_qrcode row = qrcode_flag req)"
      unfolding k by (simp add: link_redirect_resolved [OF f] track_fields)
  qed
  have 5: "\<forall>d. fst (link_redirect st ev req key w) = Inr (HttpResponseRedirect d) \<longrightarrow>
      (\<exists>l row. l \<in> set (links w) \<and> key = Uuid (link_id l) \<and> link_is_active l \<and> d = link_url l
         \<and> link_stats (snd (link_redirect st ev req key w)) = link_stats w @ [row]
         \<and> parent row = link_id l \<and> via_qrcode row = qrcode_flag req)"
  proof (intro allI impI)
    fix d assume "fst (link_redirect st ev req key w) = Inr (HttpResponseRedirect d)"
    from link_redirect_redirected [OF this]
    obtain i l where k: "key = Uuid i"
      and f: "filter (\<lambda>l. link_id l = i \<and> link_is_active l) (links w) = [l]"
      and d: "d = link_url l" by blast
    from filter_singletonD [OF f]
    have m: "l \<in> set (links w)" "link_id l = i" "link_is_active l" by simp_all
    have "link_stats (snd (link_redirect st ev req key w))
            = link_stats w @ [fst (track st ev req (link_id l))]"
      unfolding k by (simp add: link_redirect_resolved [OF f])
    with m d k track_fields
    show "\<exists>l row. l \<in> set (links w) \<and> key = Uuid (link_id l) \<and> link_is_active l \<and> d = link_url l
         \<and> link_stats (snd (link_redirect st ev req key w)) = link_stats w @ [row]
         \<and> parent row = link_id l \<and> via_qrcode row = qrcode_flag req"
      by blast
  qed
  have 6: "\<forall>p. fst (link_redirect st ev req key w) = Inr (Render404 p) \<longrightarrow>
        link_stats (snd (link_redirect st ev req key w)) = link_stats w"
    using link_redirect_not_found by blast
  show ?thesis
    by (intro conjI) (rule 1 2 3 4 5 6)+
qed

text \<open>The views on the example inputs.\<close>

lemma demo_reserved:
  "is_reserved demo_settings ''abc234'' = False"
  "is_reserved demo_settings ''old234'' = False"
  "is_reserved demo_settings ''zzz999'' = False"
  "is_reserved demo_settings ''ftp567'' = False"
  "is_reserved demo_settings ''static'' = True"
  "is_reserved demo_settings ''Admin'' = True"
  by code_simp+

text \<open>
  A configured reserved path with a letter outside ASCII: the code made of the capital
  letter U+00C9 and \<open>COLE\<close> is reserved when the list holds the small letter U+00E9
  followed by \<open>cole\<close>. The multiplication sign U+00D7 is not a letter: it does not
  match the division sign U+00F7, 32 code points above it.
\<close>

lemma latin1_reserved:
  "is_reserved (demo_settings\<lparr>TINYURL_RESERVED_PATHS := Some [[CHR 0xE9, CHR ''c'', CHR ''o'', CHR ''l'', CHR ''e'']]\<rparr>)
     [CHR 0xC9, CHR ''C'', CHR ''O'', CHR ''L'', CHR ''E'']"
  "eq_ignoring_case [CHR 0xC9, CHR ''C'', CHR ''O'', CHR ''L'', CHR ''E'']
     [CHR 0xE9, CHR ''c'', CHR ''o'', CHR ''l'', CHR ''e'']"
  "\<not> is_reserved (demo_settings\<lparr>TINYURL_RESERVED_PATHS := Some [[CHR 0xF7]]\<rparr>) [CHR 0xD7]"
  unfolding lower_eq_iff [symmetric] by code_simp+

lemma demo_scheme:
  "scheme_check ''https://example.org/page'' = RedirectAccepted"
  "scheme_check ''https://blog.example.org/'' = RedirectAccepted"
  "scheme_check ''ftps://files.example.org/data'' = RedirectDisallowed"
  by code_simp+

lemmas demo_defs = demo_settings_def demo_env_def demo_request_def demo_world_def
  both_flags_agent_def geo_down_def

lemmas eval_defs = http_response_redirect_def demo_scheme
  track_def get_client_ip_def get_device_type_def get_location_from_ip_def
  no_location_def lower_true_iff qrcode_flag_def true_spellings_def

lemma demo_redirect:
  "redirect_view demo_settings demo_env demo_request ''abc234'' demo_world =
     (Inr (HttpResponseRedirect ''https://example.org/page''),
      demo_world\<lparr>url_stats :=
          [\<lparr>stat_id = 99, parent = 1, created_at = 1700000000, via_qrcode = True,
             device_type = ''mobile'', stat_city = None, stat_country = None,
             ip_address = Some ''127.0.0.1'', user_agent_string = ''Mozilla''\<rparr>],
        db_log := [UrlGet ''abc234'', UrlStatCreate 1], http_log := []\<rparr>)"
  apply (simp add: redirect_view_cases demo_reserved)
  apply (simp add: demo_defs eval_defs)
  done


lemma demo_link_redirect:
  "link_redirect demo_settings demo_env demo_request (Uuid 10) demo_world =
     (Inr (HttpResponseRedirect ''https://blog.example.org/''),
      demo_world\<lparr>link_stats :=
          [\<lparr>stat_id = 99, parent = 10, created_at = 1700000000, via_qrcode = True,
             device_type = ''mobile'', stat_city = None, stat_country = None,
             ip_address = Some ''127.0.0.1'', user_agent_string = ''Mozilla''\<rparr>],
        db_log := [LinkGet (Uuid 10), LinkStatCreate 10], http_log := []\<rparr>)"
  by (simp add: link_redirect_cases demo_defs eval_defs)

lemma demo_not_found:
  "redirect_view demo_settings demo_env demo_request ''old234'' demo_world =
     (Inr (Render404 ''https://logmi.example/''), demo_world\<lparr>db_log := [UrlGet ''old234'']\<rparr>)"
  "redirect_view demo_settings demo_env demo_request ''zzz999'' demo_world =
     (Inr (Render404 ''https://logmi.example/''), demo_world\<lparr>db_log := [UrlGet ''zzz999'']\<rparr>)"
  "redirect_view demo_settings demo_env demo_request ''static'' demo_world =
     (Inr (Render404 ''https://logmi.example/''), demo_world)"
  "redirect_view demo_settings demo_env demo_request ''Admin'' demo_world =
     (Inr (Render404 ''https://logmi.example/''), demo_world)"
  "link_redirect demo_settings demo_env demo_request (Uuid 11) demo_world =
     (Inr (Render404 ''https://logmi.example/''), demo_world\<lparr>db_log := [LinkGet (Uuid 11)]\<rparr>)"
  "link_redirect demo_settings demo_env demo_request (Uuid 12) demo_world =
     (Inr (Render404 ''https://logmi.example/''), demo_world\<lparr>db_log := [LinkGet (Uuid 12)]\<rparr>)"
  "link_redirect demo_settings demo_env demo_request (Invalid ''not-a-uuid'') demo_world =
     (Inr (Render404 ''https://logmi.example/''),
      demo_world\<lparr>db_log := [LinkGet (Invalid ''not-a-uuid'')]\<rparr>)"
  apply (simp_all add: redirect_view_cases link_redirect_cases demo_reserved)
  apply (simp_all add: demo_defs eval_defs)
  done

lemma demo_lookups:
  "objects_get (\<lambda>u. short_code u = ''abc234'' \<and> url_is_active u) (urls demo_world)
     = Inr \<lparr>url_id = 1, short_code = ''abc234'', long_url = ''https://example.org/page'',
            url_is_active = True\<rparr>"
  "link_objects_get (Uuid 10) (links demo_world)
     = Inr \<lparr>link_id = 10, link_name = ''Blog'', link_url = ''https://blog.example.org/'',
            link_is_active = True\<rparr>"
  by (simp_all add: objects_get_def link_objects_get_def demo_world_def)

theorem click_recorded_once_witness:
  "\<not> is_reserved demo_settings ''abc234''
   \<and> fst (redirect_view demo_settings demo_env demo_request ''abc234'' demo_world)
     = Inr (HttpResponseRedirect ''https://example.org/page'')
   \<and> map parent (url_stats (snd (redirect_view demo_settings demo_env demo_request ''abc234'' demo_world))) = [1]
   \<and> map via_qrcode (url_stats (snd (redirect_view demo_settings demo_env demo_request ''abc234'' demo_world))) = [True]
   \<and> qrcode_flag demo_request
   \<and> fst (link_redirect demo_settings demo_env demo_request (Uuid 10) demo_world)
     = Inr (HttpResponseRedirect ''https://blog.example.org/'')
   \<and> map parent (link_stats (snd (link_redirect demo_settings demo_env demo_request (Uuid 10) demo_world))) = [10]"
proof -
  have q: "qrcode_flag demo_request"
    by (simp add: qrcode_flag_def demo_request_def true_spellings_def)
  have r: "\<not> is_reserved demo_settings ''abc234''" by (simp add: demo_reserved)
  show ?thesis
    using click_recorded_once [where st = demo_settings and ev = demo_env and req = demo_request
        and code = "''abc234''" and w = demo_world and key = "Uuid 10"
        and u = "\<lparr>url_id = 1, short_code = ''abc234'', long_url = ''https://example.org/page'',
                   url_is_active = True\<rparr>"
        and l = "\<lparr>link_id = 10, link_name = ''Blog'', link_url = ''https://blog.example.org/'',
                   link_is_active = True\<rparr>"] q r demo_lookups
    by (simp add: demo_redirect demo_link_redirect)
qed

section \<open>Redirect resolver: properties\<close>




lemma geo_url_ignores_reserved:
  "geo_url (st\<lparr>TINYURL_RESERVED_PATHS := r\<rparr>) ip = geo_url st ip"
  by (simp add: geo_url_def)

lemma get_location_ignores_reserved:
  "get_location_from_ip (st\<lparr>TINYURL_RESERVED_PATHS := r\<rparr>) rg ip = get_location_from_ip st rg ip"
  by (simp add: get_location_from_ip_def geo_url_ignores_reserved
        cong: option.case_cong if_cong http_result.case_cong json_body.case_cong)

lemma track_ignores_reserved:
  "track (st\<lparr>TINYURL_RESERVED_PATHS := r\<rparr>) ev req i = track st ev req i"
  by (simp add: track_def get_location_ignores_reserved)

text \<open>
  Claim C2. A short code is reserved when it equals an entry of the configured list up
  to the case of its letters; the list is \<open>admin\<close>, \<open>api\<close>, \<open>app\<close>, \<open>static\<close>,
  \<open>media\<close> when the setting is not defined. For a reserved code \<open>redirect_view\<close>
  gives the 404 page and leaves the world as it was: no call to the store is logged and
  no statistics row is written. \<open>link_redirect\<close> does not depend on the reserved-path
  setting, and it always starts with the lookup of the id.
\<close>

theorem reserved_path_short_circuit:
  "(is_reserved st code \<longleftrightarrow> (\<exists>p\<in>set (reserved_paths st). eq_ignoring_case code p))
   \<and> (is_reserved st code \<longrightarrow>
        redirect_view st ev req code w = (Inr (Render404 (REDIRECT_URL st)), w))
   \<and> (TINYURL_RESERVED_PATHS st = None \<longrightarrow>
        reserved_paths st = [''admin'', ''api'', ''app'', ''static'', ''media''])
   \<and> link_redirect (st\<lparr>TINYURL_RESERVED_PATHS := r\<rparr>) ev req key w = link_redirect st ev req key w
   \<and> (\<exists>rest. db_log (snd (link_redirect st ev req key w)) = db_log w @ LinkGet key # rest)"
proof -
  have 1: "is_reserved st code \<longleftrightarrow> (\<exists>p\<in>set (reserved_paths st). eq_ignoring_case code p)"
    by (rule is_reserved_iff)
  have 2: "is_reserved st code \<longrightarrow>
        redirect_view st ev req code w = (Inr (Render404 (REDIRECT_URL st)), w)"
    by (simp add: redirect_view_def)
  have 3: "TINYURL_RESERVED_PATHS st = None \<longrightarrow>
        reserved_paths st = [''admin'', ''api'', ''app'', ''static'', ''media'']"
    by (simp add: reserved_paths_def default_reserved_paths_def)
  have 4: "link_redirect (st\<lparr>TINYURL_RESERVED_PATHS := r\<rparr>) ev req key w = link_redirect st ev req key w"
    by (simp add: link_redirect_cases track_ignores_reserved
          cong: link_key.case_cong list.case_cong)
  have 5: "\<exists>rest. db_log (snd (link_redirect st ev req key w)) = db_log w @ LinkGet key # rest"
    by (simp add: link_redirect_cases split: link_key.splits list.splits)
  show ?thesis
    by (intro conjI) (rule 1 2 3 4 5)+
qed

theorem reserved_path_short_circuit_witness:
  "is_reserved demo_settings ''Admin''
   \<and> eq_ignoring_case ''Admin'' ''admin''
   \<and> TINYURL_RESERVED_PATHS demo_settings = None
   \<and> redirect_view demo_settings demo_env demo_request ''Admin'' demo_world
       = (Inr (Render404 ''https://logmi.example/''), demo_world)
   \<and> db_log (snd (link_redirect demo_settings demo_env demo_request (Uuid 12) demo_world))
       = [LinkGet (Uuid 12)]"
proof -
  have r: "is_reserved demo_settings ''Admin''"
    by (simp add: demo_reserved)
  have e: "eq_ignoring_case ''Admin'' ''admin''"
    unfolding lower_eq_iff [symmetric] by code_simp
  have n: "TINYURL_RESERVED_PATHS demo_settings = None"
    by (simp add: demo_settings_def)
  show ?thesis
    using reserved_path_short_circuit [of demo_settings "''Admin''" demo_env demo_request demo_world
        None "Uuid 12"] r e n
    by (simp add: demo_not_found)
qed

section \<open>Geolocation resolver: properties\<close>

text \<open>
  What holds of the resolver: the empty input and the three literal addresses it tests
  for give no location without a network call; every failure of the lookup gives no
  location; at most one call is made. The function is total: it never raises.
\<close>

lemma get_location_short_circuit:
  "ip \<in> {None, Some [], Some ''127.0.0.1'', Some ''localhost'', Some ''::1''} \<Longrightarrow>
     get_location_from_ip st rg ip = (no_location, [])"
  by (auto simp: get_location_from_ip_def)

lemma get_location_failure_swallowed:
  "rg (geo_url st ip) = RequestRaised
     \<or> (\<exists>c b. rg (geo_url st ip) = HttpResponse c b \<and>
           (c \<noteq> 200 \<or> b = JsonRaises \<or> b = JsonNotDict
            \<or> (\<exists>d. b = JsonDict d \<and> dict_get d ''status'' \<noteq> Some ''success''))) \<Longrightarrow>
     fst (get_location_from_ip st rg (Some ip)) = no_location"
  by (auto simp: get_location_from_ip_def)

lemma get_location_at_most_one_call:
  "length (snd (get_location_from_ip st rg ip)) \<le> 1"
  by (simp add: get_location_from_ip_def split: option.splits http_result.splits json_body.splits)

text \<open>
  Claim C7 asks that every private or loopback address is answered without a network
  call. The code carries the comment \<open>Skip private/local IPs\<close> but compares the
  address with three literals only: for the private address \<open>192.168.1.1\<close> it
  requests the lookup URL.
\<close>

theorem private_address_is_looked_up:
  "get_location_from_ip demo_settings geo_down (Some ''192.168.1.1'')
     = (no_location, [''http://ip-api.com/json/192.168.1.1''])"
  by (simp add: get_location_from_ip_def geo_url_def rstrip_def demo_settings_def geo_down_def)

section \<open>Stats aggregator: properties\<close>

lemma start_date_plain: "start_date plain_request example_now = Inr 1639137600"
  by (simp add: start_date_def query_days_def plain_request_def example_now_def
        timedelta_days_def datetime_sub_def DATETIME_MIN_def DATETIME_MAX_def)

lemmas aggregate_eval = aggregate_def start_date_plain group_count_def order_by_count_desc_def
  trunc_date_def example_events_def demo_settings_def

lemma example_related:
  "filter (\<lambda>s. parent s = url_id example_url) (url_stats example_world) = example_events 1"
  "filter (\<lambda>s. parent s = link_id example_link) (link_stats example_world) = example_events 10"
  by (simp_all add: example_world_def example_url_def example_link_def example_events_def)

lemma example_aggregate:
  "\<exists>s. aggregate demo_settings plain_request example_now (example_events p) = Inr s
     \<and> total_clicks s = 3 \<and> qrcode_clicks s = 1 \<and> direct_clicks s = 2
     \<and> clicks_by_device s ''mobile'' = Some 2 \<and> clicks_by_device s ''desktop'' = Some 1
     \<and> clicks_by_device s ''tablet'' = None \<and> clicks_by_device s ''unknown'' = None
     \<and> clicks_by_country s = [(''FR'', 2), (''US'', 1)]
     \<and> clicks_by_day s = [(19000, 2), (19001, 1)]"
  by (simp add: aggregate_eval)

lemma example_summaries:
  "example_url_summary = aggregate demo_settings plain_request example_now (example_events 1)"
  "example_link_summary = aggregate demo_settings plain_request example_now (example_events 10)"
  by (simp_all add: example_url_summary_def example_link_summary_def UrlViewSet_stats_def
        LinkViewSet_stats_def example_related)

lemma group_count_keys: "fst ` set (group_count ks) = set ks"
  by (force simp: group_count_def)

lemma map_of_group_count:
  "map_of (group_count ks) k = (if k \<in> set ks then Some (int (count_list ks k)) else None)"
proof -
  have "map_of (map (\<lambda>k. (k, int (count_list ks k))) xs) k
          = (if k \<in> set xs then Some (int (count_list ks k)) else None)" for xs
    by (induction xs) auto
  then show ?thesis by (simp add: group_count_def)
qed

text \<open>
  The device breakdown has a key exactly for the device types that occur among the
  events of the window, with their number: a type that does not occur has no entry.
\<close>

lemma clicks_by_device_no_zero_fill:
  assumes "start_date req t = Inr start" and "aggregate st req t related = Inr s"
  shows "clicks_by_device s d =
           (if d \<in> device_type ` {e \<in> set related. start \<le> created_at e}
            then Some (int (length (filter (\<lambda>e. start \<le> created_at e \<and> device_type e = d) related)))
            else None)"
proof -
  have c: "count_list (map f xs) d = length (filter (\<lambda>e. f e = d) xs)" for f :: "stat \<Rightarrow> string" and xs
    by (induction xs) auto
  from assms have "clicks_by_device s = map_of (group_count (map device_type
      (filter (\<lambda>e. start \<le> created_at e) related)))"
    by (auto simp: aggregate_def Let_def)
  then show ?thesis
    by (auto simp: map_of_group_count c conj_commute)
qed

text \<open>
  Claim C4 as stated asks for all four device categories in \<open>clicks_by_device\<close>,
  the absent ones with a zero. On the worked example the mapping that both
  \<open>stats\<close> actions return has no entry for \<open>tablet\<close> and none for \<open>unknown\<close>.
\<close>

theorem device_zero_fill_counterexample:
  "\<not> isl example_url_summary
   \<and> clicks_by_device (projr example_url_summary) ''tablet'' = None
   \<and> clicks_by_device (projr example_url_summary) ''unknown'' = None
   \<and> \<not> isl example_link_summary
   \<and> clicks_by_device (projr example_link_summary) ''tablet'' = None
   \<and> clicks_by_device (projr example_link_summary) ''unknown'' = None"
  using example_aggregate [of 1] example_aggregate [of 10]
  by (auto simp: example_summaries)

text \<open>
  Claim C4, amended. On the worked example, with a window that covers both days, both
  \<open>stats\<close> actions return \<open>total_clicks = 3\<close>, \<open>qrcode_clicks = 1\<close>,
  \<open>direct_clicks = 2\<close>, a \<open>clicks_by_device\<close> with \<open>mobile: 2\<close> and
  \<open>desktop: 1\<close> and no entry for \<open>tablet\<close> or \<open>unknown\<close>,
  \<open>clicks_by_country\<close> \<open>FR: 2\<close> then \<open>US: 1\<close>, and \<open>clicks_by_day\<close> the first
  day with 2 then the second day with 1, days without events left out.
\<close>

theorem worked_example_summary:
  "\<not> isl example_url_summary
   \<and> total_clicks (projr example_url_summary) = 3
   \<and> qrcode_clicks (projr example_url_summary) = 1
   \<and> direct_clicks (projr example_url_summary) = 2
   \<and> clicks_by_device (projr example_url_summary) ''mobile'' = Some 2
   \<and> clicks_by_device (projr example_url_summary) ''desktop'' = Some 1
   \<and> clicks_by_device (projr example_url_summary) ''tablet'' = None
   \<and> clicks_by_device (projr example_url_summary) ''unknown'' = None
   \<and> clicks_by_country (projr example_url_summary) = [(''FR'', 2), (''US'', 1)]
   \<and> clicks_by_day (projr example_url_summary) = [(19000, 2), (19001, 1)]
   \<and> \<not> isl example_link_summary
   \<and> total_clicks (projr example_link_summary) = 3
   \<and> qrcode_clicks (projr example_link_summary) = 1
   \<and> direct_clicks (projr example_link_summary) = 2
   \<and> clicks_by_device (projr example_link_summary) ''mobile'' = Some 2
   \<and> clicks_by_device (projr example_link_summary) ''desktop'' = Some 1
   \<and> clicks_by_device (projr example_link_summary) ''tablet'' = None
   \<and> clicks_by_device (projr example_link_summary) ''unknown'' = None
   \<and> clicks_by_country (projr example_link_summary) = [(''FR'', 2), (''US'', 1)]
   \<and> clicks_by_day (projr example_link_summary) = [(19000, 2), (19001, 1)]"
  using example_aggregate [of 1] example_aggregate [of 10]
  by (auto simp: example_summaries)

section \<open>Statistics window: properties\<close>













section \<open>Identifier generator: properties\<close>

lemma chars_value: "chars = ''abcdefghijkmnopqrstuvwxyzABCDEFGHJKLMNPQRSTUVWXYZ23456789''"
  by (simp add: chars_def ascii_letters_def ascii_lowercase_def ascii_uppercase_def digits_def)

lemma chars_nonempty: "0 < length chars"
  by (simp add: chars_value)

lemma choice_in_chars: "choice chars r \<in> set chars"
  unfolding choice_def using chars_nonempty by (intro nth_mem) simp

lemma set_chars:
  "set chars = (set ascii_letters \<union> set digits) - set ''O0l1I''"
  by (auto simp: chars_def)

lemma generate_short_code_chars:
  "c \<in> set (fst (generate_short_code rnd pos n)) \<Longrightarrow> c \<in> set chars"
  by (auto simp: generate_short_code_def choice_in_chars)

lemma generate_short_code_length:
  "length (fst (generate_short_code rnd pos n)) = n"
  "snd (generate_short_code rnd pos n) = pos + n"
  by (simp_all add: generate_short_code_def)

lemma generate_as_candidate:
  "generate_short_code rnd pos DEFAULT_LENGTH = (candidate rnd pos 0, pos + DEFAULT_LENGTH)"
  by (simp add: candidate_def generate_short_code_def)

lemma candidate_shift:
  "candidate rnd (pos + DEFAULT_LENGTH) k = candidate rnd pos (Suc k)"
  by (simp add: candidate_def add.assoc)

lemma attempts_exhausted:
  "(\<forall>k<n. code_exists table (candidate rnd pos k)) \<Longrightarrow>
     attempts n rnd pos table = (None, pos + DEFAULT_LENGTH * n)"
proof (induction n arbitrary: pos)
  case 0
  then show ?case by simp
next
  case (Suc n)
  from Suc.prems have c0: "code_exists table (candidate rnd pos 0)" by simp
  from Suc.prems have "\<forall>k<n. code_exists table (candidate rnd (pos + DEFAULT_LENGTH) k)"
    by (simp add: candidate_shift)
  from Suc.IH [OF this] c0 show ?case
    by (simp add: generate_as_candidate add.assoc)
qed

lemma attempts_found:
  "k < n \<Longrightarrow> \<not> code_exists table (candidate rnd pos k) \<Longrightarrow>
   (\<forall>j<k. code_exists table (candidate rnd pos j)) \<Longrightarrow>
     attempts n rnd pos table = (Some (candidate rnd pos k), pos + DEFAULT_LENGTH * Suc k)"
proof (induction n arbitrary: pos k)
  case 0
  then show ?case by simp
next
  case (Suc n)
  show ?case
  proof (cases k)
    case 0
    with Suc.prems show ?thesis by (simp add: generate_as_candidate)
  next
    case (Suc k')
    with Suc.prems have c0: "code_exists table (candidate rnd pos 0)" by simp
    from Suc Suc.prems have a: "k' < n"
      and b: "\<not> code_exists table (candidate rnd (pos + DEFAULT_LENGTH) k')"
      by (simp_all add: candidate_shift)
    from Suc Suc.prems have c: "\<forall>j<k'. code_exists table (candidate rnd (pos + DEFAULT_LENGTH) j)"
      by (auto simp: candidate_shift)
    from Suc.IH [OF a b c] c0 Suc show ?thesis
      by (simp add: generate_as_candidate candidate_shift add.assoc)
  qed
qed

lemma redirect_view_errors:
  "fst (redirect_view st ev req code w) = Inl e \<Longrightarrow>
     e = MultipleObjectsReturned \<or> e = DisallowedRedirect \<or> e = ValueError"
  by (auto simp: redirect_view_cases http_response_redirect_Inl split: if_splits list.splits)

lemma link_redirect_errors:
  "fst (link_redirect st ev req key w) = Inl e \<Longrightarrow> e = DisallowedRedirect \<or> e = ValueError"
  by (auto simp: link_redirect_cases http_response_redirect_Inl split: link_key.splits list.splits)

text \<open>
  Claim C5. A generated code has the length asked for (6 by default) and only
  characters that are ASCII letters or digits other than \<open>0\<close>, \<open>O\<close>, \<open>1\<close>,
  \<open>l\<close>, \<open>I\<close>. When the caller supplies no short code (none, or the empty string),
  the allocation draws candidates and checks each against the stored codes: the first
  of the ten candidates that is free becomes the short code, and when all ten are taken
  the allocation, and with it \<open>create\<close>, fails with the validation error. Neither
  redirect view ever ends in a validation error.
\<close>

theorem short_code_allocation:
  "(\<forall>c\<in>set (fst (generate_short_code rnd pos n)).
       c \<in> set ascii_letters \<union> set digits \<and> c \<notin> set ''0O1lI'')
   \<and> length (fst (generate_short_code rnd pos n)) = n
   \<and> DEFAULT_LENGTH = 6
   \<and> ((vd_short_code vd = None \<or> vd_short_code vd = Some [])
        \<and> (\<forall>k<10. code_exists table (candidate rnd pos k)) \<longrightarrow>
        ensure_short_code rnd pos vd table = Inl (ValidationError capacity_message)
        \<and> create rnd pos new_id vd table = Inl (ValidationError capacity_message))
   \<and> ((vd_short_code vd = None \<or> vd_short_code vd = Some [])
        \<and> k < 10 \<and> \<not> code_exists table (candidate rnd pos k)
        \<and> (\<forall>j<k. code_exists table (candidate rnd pos j)) \<longrightarrow>
        ensure_short_code rnd pos vd table
          = Inr (vd\<lparr>vd_short_code := Some (candidate rnd pos k)\<rparr>, pos + DEFAULT_LENGTH * Suc k))
   \<and> (\<forall>m. fst (redirect_view st ev req code w) \<noteq> Inl (ValidationError m))
   \<and> (\<forall>m. fst (link_redirect st ev req lid w) \<noteq> Inl (ValidationError m))"
proof -
  have 1: "\<forall>c\<in>set (fst (generate_short_code rnd pos n)).
       c \<in> set ascii_letters \<union> set digits \<and> c \<notin> set ''0O1lI''"
  proof
    fix c assume "c \<in> set (fst (generate_short_code rnd pos n))"
    then have "c \<in> set chars" by (rule generate_short_code_chars)
    then show "c \<in> set ascii_letters \<union> set digits \<and> c \<notin> set ''0O1lI''"
      by (auto simp: set_chars)
  qed
  have 2: "length (fst (generate_short_code rnd pos n)) = n"
    by (rule generate_short_code_length)
  have 3: "DEFAULT_LENGTH = 6" by (simp add: DEFAULT_LENGTH_def)
  have 4: "(vd_short_code vd = None \<or> vd_short_code vd = Some [])
        \<and> (\<forall>k<10. code_exists table (candidate rnd pos k)) \<longrightarrow>
        ensure_short_code rnd pos vd table = Inl (ValidationError capacity_message)
        \<and> create rnd pos new_id vd table = Inl (ValidationError capacity_message)"
  proof
    assume a: "(vd_short_code vd = None \<or> vd_short_code vd = Some [])
        \<and> (\<forall>k<10. code_exists table (candidate rnd pos k))"
    then have "attempts 10 rnd pos table = (None, pos + DEFAULT_LENGTH * 10)"
      by (intro attempts_exhausted) simp
    with a have e: "ensure_short_code rnd pos vd table = Inl (ValidationError capacity_message)"
      by (auto simp: ensure_short_code_def)
    then have "create rnd pos new_id vd table = Inl (ValidationError capacity_message)"
      by (simp add: create_def)
    with e show "ensure_short_code rnd pos vd table = Inl (ValidationError capacity_message)
        \<and> create rnd pos new_id vd table = Inl (ValidationError capacity_message)" by simp
  qed
  have 5: "(vd_short_code vd = None \<or> vd_short_code vd = Some [])
        \<and> k < 10 \<and> \<not> code_exists table (candidate rnd pos k)
        \<and> (\<forall>j<k. code_exists table (candidate rnd pos j)) \<longrightarrow>
        ensure_short_code rnd pos vd table
          = Inr (vd\<lparr>vd_short_code := Some (candidate rnd pos k)\<rparr>, pos + DEFAULT_LENGTH * Suc k)"
  proof
    assume a: "(vd_short_code vd = None \<or> vd_short_code vd = Some [])
        \<and> k < 10 \<and> \<not> code_exists table (candidate rnd pos k)
        \<and> (\<forall>j<k. code_exists table (candidate rnd pos j))"
    then have "attempts 10 rnd pos table = (Some (candidate rnd pos k), pos + DEFAULT_LENGTH * Suc k)"
      by (intro attempts_found) simp_all
    with a show "ensure_short_code rnd pos vd table
          = Inr (vd\<lparr>vd_short_code := Some (candidate rnd pos k)\<rparr>, pos + DEFAULT_LENGTH * Suc k)"
      by (auto simp: ensure_short_code_def)
  qed
  have 6: "\<forall>m. fst (redirect_view st ev req code w) \<noteq> Inl (ValidationError m)"
    using redirect_view_errors [of st ev req code w] by auto
  have 7: "\<forall>m. fst (link_redirect st ev req lid w) \<noteq> Inl (ValidationError m)"
    using link_redirect_errors [of st ev req lid w] by auto
  show ?thesis
    by (intro conjI) (rule 1 2 3 4 5 6 7)+
qed

lemma upt_6: "[0..<6] = [0, 1, 2, 3, 4, 5]"
  by (simp add: upt_rec)

lemma candidate_rnd_static: "candidate rnd_static 0 k = ''static''"
proof -
  have r: "rnd_static (6 * k + i) = [17, 18, 0, 18, 8, 2] ! (i mod 6)" for i
    by (simp add: rnd_static_def)
  have "map (\<lambda>i. choice chars (rnd_static (6 * k + i))) [0, 1, 2, 3, 4, 5] = ''static''"
    unfolding r by (simp add: choice_def chars_value)
  then show ?thesis
    by (simp add: candidate_def generate_short_code_def DEFAULT_LENGTH_def upt_6)
qed

theorem short_code_allocation_witness:
  "vd_short_code new_url_data = None
   \<and> code_exists [static_url] (candidate rnd_static 0 0)
   \<and> code_exists [static_url] (candidate rnd_static 0 9)
   \<and> create rnd_static 0 5 new_url_data [static_url] = Inl (ValidationError capacity_message)
   \<and> \<not> code_exists [example_url] (candidate rnd_static 0 0)
   \<and> ensure_short_code rnd_static 0 new_url_data [example_url]
       = Inr (new_url_data\<lparr>vd_short_code := Some ''static''\<rparr>, 6)"
proof -
  have v: "vd_short_code new_url_data = None" by (simp add: new_url_data_def)
  have f: "\<forall>k<10. code_exists [static_url] (candidate rnd_static 0 k)"
    by (simp add: candidate_rnd_static code_exists_def static_url_def)
  have n: "\<not> code_exists [example_url] (candidate rnd_static 0 0)"
    by (simp add: candidate_rnd_static code_exists_def example_url_def)
  note t1 = short_code_allocation [of rnd_static 0 6 new_url_data "[static_url]" 5 0
            demo_settings demo_env demo_request "''abc234''" demo_world "Uuid 10"]
  note t2 = short_code_allocation [of rnd_static 0 6 new_url_data "[example_url]" 5 0
            demo_settings demo_env demo_request "''abc234''" demo_world "Uuid 10"]
  note full = t1 [THEN conjunct2, THEN conjunct2, THEN conjunct2, THEN conjunct1]
  note free = t2 [THEN conjunct2, THEN conjunct2, THEN conjunct2, THEN conjunct2, THEN conjunct1]
  from full [THEN mp, OF conjI [OF disjI1 [OF v] f]]
  have c: "create rnd_static 0 5 new_url_data [static_url] = Inl (ValidationError capacity_message)"
    by (rule conjunct2)
  from free v n
  have e: "ensure_short_code rnd_static 0 new_url_data [example_url]
       = Inr (new_url_data\<lparr>vd_short_code := Some ''static''\<rparr>, 6)"
    by (simp add: candidate_rnd_static DEFAULT_LENGTH_def)
  from f have f0: "code_exists [static_url] (candidate rnd_static 0 0)"
    and f9: "code_exists [static_url] (candidate rnd_static 0 9)" by simp_all
  from v f0 f9 c n e show ?thesis by (intro conjI)
qed

section \<open>Url serializer: reserved short codes\<close>

text \<open>
  A short code that the request supplies is checked: a reserved one is refused by
  \<open>create\<close> and by \<open>update\<close>, and a supplied code that is stored is not reserved.
\<close>

lemma reserved_code_rejected:
  assumes "vd_short_code data = Some v" and "is_reserved st v"
  shows "\<exists>m. save_create st rnd pos i data table = Inl (ValidationError m)
           \<and> save_update st rnd pos i data table = Inl (ValidationError m)"
  using assms by (simp add: save_create_def save_update_def run_validation_def validate_short_code_def)

lemma supplied_code_not_reserved:
  assumes "save_create st rnd pos i data table = Inr table'"
    and "vd_short_code data = Some v" and "v \<noteq> []"
  shows "\<not> is_reserved st v \<and> (\<exists>row. table' = table @ [row] \<and> short_code row = v)"
  using assms
  by (auto simp: save_create_def run_validation_def validate_short_code_def create_def
        ensure_short_code_def model_create_def Let_def split: if_splits)

lemma static_is_reserved: "is_reserved demo_settings ''static''"
  by (simp add: demo_reserved)

text \<open>
  Claim C10 asks that no stored \<open>Url\<close> gets a reserved short code through the
  serializer. \<open>validate_short_code\<close> runs on the code of the request only; the code
  that \<open>_ensure_short_code\<close> generates afterwards is compared with the stored codes
  but not with the reserved paths. A creation request without a short code, with the
  generator drawing \<open>s\<close>, \<open>t\<close>, \<open>a\<close>, \<open>t\<close>, \<open>i\<close>, \<open>c\<close>, stores a
  \<open>Url\<close> whose short code is the reserved path \<open>static\<close>; the redirect view
  answers that code with the 404 page.
\<close>

theorem generated_code_is_not_validated:
  "vd_short_code new_url_data = None
   \<and> save_create demo_settings rnd_static 0 4 new_url_data [example_url]
       = Inr [example_url, static_url]
   \<and> is_reserved demo_settings (short_code static_url)
   \<and> fst (redirect_view demo_settings demo_env demo_request (short_code static_url)
            (demo_world\<lparr>urls := [example_url, static_url]\<rparr>))
       = Inr (Render404 ''https://logmi.example/'')"
proof -
  have v: "vd_short_code new_url_data = None" by (simp add: new_url_data_def)
  have n: "\<not> code_exists [example_url] (candidate rnd_static 0 0)"
    by (simp add: candidate_rnd_static code_exists_def example_url_def)
  have "attempts 10 rnd_static 0 [example_url] = (Some (candidate rnd_static 0 0), 0 + DEFAULT_LENGTH * Suc 0)"
    using n by (intro attempts_found) simp_all
  then have a: "attempts 10 rnd_static 0 [example_url] = (Some ''static'', 6)"
    by (simp add: candidate_rnd_static DEFAULT_LENGTH_def)
  have e: "ensure_short_code rnd_static 0 new_url_data [example_url]
       = Inr (new_url_data\<lparr>vd_short_code := Some ''static''\<rparr>, 6)"
    by (simp add: ensure_short_code_def a v)
  have m: "model_create 4 (new_url_data\<lparr>vd_short_code := Some ''static''\<rparr>) [example_url]
       = Inr [example_url, static_url]"
    by (simp add: model_create_def code_exists_def new_url_data_def example_url_def static_url_def)
  have c: "save_create demo_settings rnd_static 0 4 new_url_data [example_url]
       = Inr [example_url, static_url]"
    by (simp add: save_create_def run_validation_def v create_def e m)
  have s: "short_code static_url = ''static''" by (simp add: static_url_def)
  have r: "fst (redirect_view demo_settings demo_env demo_request ''static''
            (demo_world\<lparr>urls := [example_url, static_url]\<rparr>))
       = Inr (Render404 ''https://logmi.example/'')"
    using static_is_reserved by (simp add: redirect_view_cases demo_settings_def)
  from v c static_is_reserved r show ?thesis by (simp add: s)
qed

section \<open>Dashboard ranking: properties\<close>

text \<open>
  The click count of \<open>top_links\<close> is the number of all click events of the link
  times the number of its click events in the window.
\<close>

lemma link_click_count_product:
  "link_click_count start table l =
     int (length (filter (\<lambda>s. parent s = link_id l) table))
       * clicks_in_window start table (link_id l)"
  by (simp add: link_click_count_def link_join_rows_def clicks_in_window_def length_concat
        comp_def sum_list_triv)

lemma link_join_rows_nonempty:
  "link_join_rows start table l \<noteq> [] \<longleftrightarrow> 0 < link_click_count start table l"
  by (simp add: link_click_count_def)

text \<open>
  \<open>top_urls\<close> lists at most ten stored URLs, each with the number of its click
  events in the window, which is positive, in descending order of that number.
\<close>

lemma top_urls_ranked:
  "(\<forall>r\<in>set (top_urls start w). fst r \<in> set (urls w) \<and> 0 < snd r
       \<and> snd r = clicks_in_window start (url_stats w) (url_id (fst r)))
   \<and> sorted (map (\<lambda>r. - snd r) (top_urls start w))
   \<and> length (top_urls start w) \<le> 10"
proof (intro conjI ballI)
  fix r assume "r \<in> set (top_urls start w)"
  then have "r \<in> set (filter (\<lambda>r. 0 < snd r)
          (map (\<lambda>u. (u, url_click_count start (url_stats w) u)) (urls w)))"
    unfolding top_urls_def order_by_count_desc_def by (auto dest: in_set_takeD)
  then show "fst r \<in> set (urls w)" "0 < snd r"
    "snd r = clicks_in_window start (url_stats w) (url_id (fst r))"
    by (auto simp: url_click_count_def clicks_in_window_def)
next
  show "sorted (map (\<lambda>r. - snd r) (top_urls start w))"
    unfolding top_urls_def order_by_count_desc_def
    by (simp add: take_map [symmetric])
next
  show "length (top_urls start w) \<le> 10"
    by (simp add: top_urls_def)
qed

text \<open>
  Claim C9 asks that both lists rank by the click events in the window only.
  \<open>top_links\<close> does not: with four old click events and one in the window, link 20
  gets the count 5 and is listed before link 21, whose two click events are both in the
  window and which gets the count 4. \<open>top_urls\<close> on the same events lists 21 with 2
  before 20 with 1.
\<close>

theorem top_links_counts_all_time_clicks:
  "linktree_dashboard_top_links plain_request example_now ranking_world
     = Inr [(\<lparr>link_id = 20, link_name = ''A'', link_url = ''https://a.example.org/'',
               link_is_active = True\<rparr>, 5),
            (\<lparr>link_id = 21, link_name = ''B'', link_url = ''https://b.example.org/'',
               link_is_active = True\<rparr>, 4)]
   \<and> start_date plain_request example_now = Inr 1639137600
   \<and> clicks_in_window 1639137600 (link_stats ranking_world) 20 = 1
   \<and> clicks_in_window 1639137600 (link_stats ranking_world) 21 = 2
   \<and> tinyurl_dashboard_top_urls plain_request example_now ranking_world
     = Inr [(\<lparr>url_id = 21, short_code = ''bbb333'', long_url = ''https://b.example.org/'',
               url_is_active = True\<rparr>, 2),
            (\<lparr>url_id = 20, short_code = ''aaa222'', long_url = ''https://a.example.org/'',
               url_is_active = True\<rparr>, 1)]"
proof -
  have 1: "linktree_dashboard_top_links plain_request example_now ranking_world
     = Inr [(\<lparr>link_id = 20, link_name = ''A'', link_url = ''https://a.example.org/'',
               link_is_active = True\<rparr>, 5),
            (\<lparr>link_id = 21, link_name = ''B'', link_url = ''https://b.example.org/'',
               link_is_active = True\<rparr>, 4)]"
    by (simp add: linktree_dashboard_top_links_def start_date_plain top_links_def
          link_join_rows_nonempty link_click_count_product clicks_in_window_def
          order_by_count_desc_def ranking_world_def ranking_clicks_def click_def)
  have 2: "clicks_in_window 1639137600 (link_stats ranking_world) 20 = 1"
    "clicks_in_window 1639137600 (link_stats ranking_world) 21 = 2"
    by (simp_all add: clicks_in_window_def ranking_world_def ranking_clicks_def click_def)
  have 3: "tinyurl_dashboard_top_urls plain_request example_now ranking_world
     = Inr [(\<lparr>url_id = 21, short_code = ''bbb333'', long_url = ''https://b.example.org/'',
               url_is_active = True\<rparr>, 2),
            (\<lparr>url_id = 20, short_code = ''aaa222'', long_url = ''https://a.example.org/'',
               url_is_active = True\<rparr>, 1)]"
    by (simp add: tinyurl_dashboard_top_urls_def start_date_plain top_urls_def
          url_click_count_def order_by_count_desc_def ranking_world_def
          ranking_clicks_def click_def)
  from 1 2 3 start_date_plain show ?thesis by (intro conjI)
qed

end
